theory Spec2Isabelle
  imports Complex_Main "HOL-Library.AList"
begin

section \<open>JavaScript values and helpers shared by the modules\<close>

text \<open>
  Numbers. Every score, weight and penalty of the checker is an integer; the two places
  that leave the integers are \<open>Math.round\<close> in the \<open>finalizeResult\<close> functions and the
  normalisation \<open>(totalScore / totalMaxScore) * 100\<close> of \<open>summarizeOverall\<close>. The source
  computes them in double precision; the model uses the rationals (exact arithmetic).
  \<open>Math.round\<close> rounds to the nearest integer, a tie going up: \<open>floor (x + 1/2)\<close>.
\<close>

definition Math_round :: "rat \<Rightarrow> int" where
  "Math_round x = \<lfloor>x + 1 / 2\<rfloor>"

subsection \<open>Strings\<close>

text \<open>
  Strings are lists of 8-bit characters: header values, cookie attributes, WHOIS fields
  and protocol names reach the checker as Latin-1 text. Case conversion acts on the ASCII
  letters (bit 5 of the code separates the two cases); that is what \<open>toLowerCase\<close>,
  \<open>toUpperCase\<close> and the \<open>i\<close> flag of a regular expression do when the result is
  compared with an ASCII pattern, as everywhere below.
\<close>

fun toLowerChar :: "char \<Rightarrow> char" where
  "toLowerChar (Char b0 b1 b2 b3 b4 b5 b6 b7) =
     (let n = (of_char (Char b0 b1 b2 b3 b4 b5 b6 b7) :: nat)
      in if 65 \<le> n \<and> n \<le> 90 then Char b0 b1 b2 b3 b4 True b6 b7
         else Char b0 b1 b2 b3 b4 b5 b6 b7)"

fun toUpperChar :: "char \<Rightarrow> char" where
  "toUpperChar (Char b0 b1 b2 b3 b4 b5 b6 b7) =
     (let n = (of_char (Char b0 b1 b2 b3 b4 b5 b6 b7) :: nat)
      in if 97 \<le> n \<and> n \<le> 122 then Char b0 b1 b2 b3 b4 False b6 b7
         else Char b0 b1 b2 b3 b4 b5 b6 b7)"

definition toLowerCase :: "string \<Rightarrow> string" where
  "toLowerCase s = map toLowerChar s"

definition toUpperCase :: "string \<Rightarrow> string" where
  "toUpperCase s = map toUpperChar s"

text \<open>White space (\<open>trim\<close>, and \<open>\s\<close> in a regular expression): TAB, LF, VT, FF, CR, SP, NBSP.\<close>

definition isSpace :: "char \<Rightarrow> bool" where
  "isSpace c = (let n = (of_char c :: nat) in (9 \<le> n \<and> n \<le> 13) \<or> n = 32 \<or> n = 160)"

definition isDigit :: "char \<Rightarrow> bool" where
  "isDigit c = (let n = (of_char c :: nat) in 48 \<le> n \<and> n \<le> 57)"

definition trim :: "string \<Rightarrow> string" where
  "trim s = rev (dropWhile isSpace (rev (dropWhile isSpace s)))"

definition startsWith :: "string \<Rightarrow> string \<Rightarrow> bool" where
  "startsWith s p = (take (length p) s = p)"

fun join :: "string \<Rightarrow> string list \<Rightarrow> string" where
  "join sep [] = []"
| "join sep [x] = x"
| "join sep (x # y # ys) = x @ sep @ join sep (y # ys)"

text \<open>
  \<open>re.test(s)\<close> for an unanchored regular expression: the pattern may match at any
  position, so the test holds when some suffix of \<open>s\<close> begins with a match.
\<close>

fun anySuffix :: "(string \<Rightarrow> bool) \<Rightarrow> string \<Rightarrow> bool" where
  "anySuffix P [] = P []"
| "anySuffix P (c # cs) = (P (c # cs) \<or> anySuffix P cs)"

text \<open>\<open>/lit/i.test(s)\<close> for a literal pattern in lower case.\<close>

definition testLiteralI :: "string \<Rightarrow> string \<Rightarrow> bool" where
  "testLiteralI lit s = anySuffix (\<lambda>t. startsWith (toLowerCase t) lit) s"

text \<open>Truthiness of a string that may be \<open>undefined\<close>.\<close>

fun truthy :: "string option \<Rightarrow> bool" where
  "truthy None = False"
| "truthy (Some s) = (s \<noteq> [])"

text \<open>
  A \<open>Date\<close> object holds a time value in milliseconds or is invalid (time value NaN).
  \<open>new Date(string)\<close> is the platform's parser; the environment supplies it as
  \<open>newDate\<close>. \<open>toISOString\<close> raises \<open>RangeError\<close> on an invalid date.
\<close>

datatype jsdate = InvalidDate | Date int

text \<open>A fault (a thrown \<open>Error\<close>) with its \<open>message\<close>.\<close>

record fault =
  message :: "string option"

definition DAY_IN_MS :: int where
  "DAY_IN_MS = 1000 * 60 * 60 * 24"

text \<open>
  \<open>[a, b].filter(Boolean)\<close> on strings that may be \<open>undefined\<close>: \<open>undefined\<close>
  (\<open>None\<close>) and the empty string are dropped.
\<close>

fun filterBoolean :: "string option list \<Rightarrow> string list" where
  "filterBoolean [] = []"
| "filterBoolean (None # xs) = filterBoolean xs"
| "filterBoolean (Some s # xs) = (if s = [] then filterBoolean xs else s # filterBoolean xs)"

text \<open>
  The \<open>details\<close> bag of a category result is an open object; it is kept as a list of
  properties in the order the code assigns them.
\<close>

record cookie_detail =
  cd_name :: "string option"
  cd_domain :: "string option"
  cd_path :: "string option"
  cd_expires :: "int option"
  cd_secure :: bool
  cd_httpOnly :: bool
  cd_sameSite :: "string option"
  cd_issues :: "string list"

datatype dvalue =
    DUndefined
  | DStr string
  | DNum int
  | DDate int
  | DList "string list"
  | DObj "(string \<times> string) list"
  | DCookies "cookie_detail list"

type_synonym details_bag = "(string \<times> dvalue) list"

record category =
  key :: string
  label :: string
  score :: int
  maxScore :: int
  passed :: bool
  warnings :: "string list"
  details :: details_bag

section \<open>The HTTP response shared by the header and cookie evaluators\<close>

text \<open>
  A response as axios delivers it. A header value is a string or, for a header that
  occurs several times (\<open>set-cookie\<close>), an array of strings; \<open>headers\<close> lists the
  entries of \<open>response.headers\<close> in the object's order (\<open>None\<close>: the response has no
  \<open>headers\<close> object). \<open>responseUrl\<close> is \<open>response.request?.res?.responseUrl\<close> and
  \<open>configUrl\<close> is \<open>response.config?.url\<close>.
\<close>

datatype hvalue = HStr string | HArr "string list"

record response =
  status :: int
  headers :: "(string \<times> hvalue) list option"
  responseUrl :: "string option"
  configUrl :: "string option"

text \<open>
  The outcome of one \<open>axios.get\<close>: a response, or a thrown error that may carry a
  response (\<open>error.response\<close>).
\<close>

datatype axios_outcome = Responded response | Failed fault "response option"

text \<open>The shared fetch context \<open>{response, fetchError}\<close> built by the request handler.\<close>

record fetch_context =
  ctx_response :: "response option"
  ctx_fetchError :: "fault option"

text \<open>\<open>a || b || c\<close> on strings: the first truthy one, else the last.\<close>

definition firstTruthy :: "string option \<Rightarrow> string option \<Rightarrow> string \<Rightarrow> string" where
  "firstTruthy a b c =
     (if truthy a then the a else if truthy b then the b else c)"

text \<open>\<open>capturedError?.message\<close>.\<close>

fun messageOf :: "fault option \<Rightarrow> string option" where
  "messageOf None = None"
| "messageOf (Some e) = message e"

section \<open>The environment of a check\<close>

text \<open>
  A parsed URL (\<open>new URL(s)\<close>, the platform's parser, \<open>parseURL\<close> of the
  environment; \<open>None\<close> when it throws). \<open>protocol\<close> ends with the colon; \<open>port\<close> is
  \<open>None\<close> for the empty string and the number otherwise.
\<close>

record parsed_url =
  href :: string
  protocol :: string
  hostname :: string
  port :: "nat option"

text \<open>
  A value of the WHOIS record: a string, an array of strings, or anything else (of which
  only the truthiness matters).
\<close>

datatype wvalue = WStr string | WArr "string list" | WOther bool

text \<open>The outcome of the lookup: a fault, or the record (\<open>None\<close>: no record object).\<close>

datatype whois_outcome = LookupFailed fault | LookupRecord "(string \<times> wvalue) list option"

text \<open>
  A cookie as \<open>setCookieParser.parse\<close> returns it. The parser is a library outside the
  repository; the environment supplies it as \<open>parseSetCookie\<close>. An attribute the
  header does not carry is \<open>undefined\<close> (\<open>None\<close>, \<open>False\<close> for the two flags); \<open>expires\<close>
  is a \<open>Date\<close> object, invalid when the attribute's text is not a date.
\<close>

record cookie =
  name :: "string option"
  domain :: "string option"
  path :: "string option"
  expires :: "jsdate option"
  secure :: bool
  httpOnly :: bool
  sameSite :: "string option"

datatype tls_certificate =
  Certificate
    (issuer: "(string \<times> string) list option")
    (subject: "(string \<times> string) list option")
    (serialNumber: "string option")
    (valid_from: "string option")
    (valid_to: "string option")
    (subjectaltname: "string option")

text \<open>
  What the TLS socket reports once the handshake has succeeded: \<open>getPeerCertificate\<close>
  or \<open>getProtocol\<close> raises, or they return the certificate (\<open>None\<close>: no certificate
  object, or one without keys) and the protocol name. The outcome of \<open>tls.connect\<close> is
  the event that fires first: \<open>error\<close>, \<open>timeout\<close>, or the connection callback.
\<close>

datatype tls_peer = PeerFault fault | Peer "tls_certificate option" "string option"

datatype tls_outcome = ConnectError fault | HandshakeTimeout | Connected tls_peer

text \<open>
  The environment of a check: the platform and library calls the evaluators make. Each
  \<open>axios.get\<close> (the handler's, and the header and cookie evaluators' own when there is no
  shared response) has its own outcome. \<open>pslDomain\<close> is \<open>psl.parse(hostname).domain\<close>
  and \<open>now\<close> is \<open>Date.now()\<close>, read as one instant for the whole check.
\<close>

record env =
  parseURL :: "string \<Rightarrow> parsed_url option"
  siteFetch :: "string \<Rightarrow> axios_outcome"
  headersFetch :: "string \<Rightarrow> axios_outcome"
  cookiesFetch :: "string \<Rightarrow> axios_outcome"
  parseSetCookie :: "hvalue \<Rightarrow> cookie list"
  tlsConnect :: "string \<Rightarrow> nat \<Rightarrow> tls_outcome"
  pslDomain :: "string \<Rightarrow> string option"
  whoisLookup :: "string \<Rightarrow> whois_outcome"
  newDate :: "string \<Rightarrow> jsdate"
  now :: int

section \<open>The TLS evaluator (checks/tls.js)\<close>

definition tls_CATEGORY_KEY :: string where
  "tls_CATEGORY_KEY = ''tls''"

definition tls_CATEGORY_LABEL :: string where
  "tls_CATEGORY_LABEL = ''HTTPS & TLS''"

definition tls_MAX_SCORE :: int where
  "tls_MAX_SCORE = 25"

definition tls_PASSING_THRESHOLD :: int where
  "tls_PASSING_THRESHOLD = 18"

text \<open>
  \<open>formatName\<close>: the truthy ones of \<open>CN\<close>, \<open>O\<close>, \<open>OU\<close> joined, else every truthy value
  of the entity joined, else \<open>null\<close>. \<open>None\<close> as argument is an entity that is not an
  object.
\<close>

definition formatName :: "(string \<times> string) list option \<Rightarrow> string option" where
  "formatName entity =
     (case entity of
        None \<Rightarrow> None
      | Some props \<Rightarrow>
          (let preferredOrder = [''CN'', ''O'', ''OU''];
               parts = filterBoolean (map (map_of props) preferredOrder)
           in if length parts = 0
              then (let fallback = filter (\<lambda>v. v \<noteq> []) (map snd props)
                    in if length fallback > 0 then Some (join '', '' fallback) else None)
              else Some (join '', '' parts)))"

definition tls_finalizeResult :: "rat \<Rightarrow> string list \<Rightarrow> details_bag \<Rightarrow> category" where
  "tls_finalizeResult sc ws ds =
     (let boundedScore = max 0 (min tls_MAX_SCORE (Math_round sc))
      in \<lparr>key = tls_CATEGORY_KEY,
          label = tls_CATEGORY_LABEL,
          score = boundedScore,
          maxScore = tls_MAX_SCORE,
          passed = (boundedScore \<ge> tls_PASSING_THRESHOLD),
          warnings = ws,
          details = ds\<rparr>)"

text \<open>\<open>s.split(sep)\<close> for a separator of one character.\<close>

fun splitOn :: "char \<Rightarrow> string \<Rightarrow> string list" where
  "splitOn sep [] = [[]]"
| "splitOn sep (c # cs) =
     (if c = sep then [] # splitOn sep cs
      else (case splitOn sep cs of [] \<Rightarrow> [[c]] | x # xs \<Rightarrow> (c # x) # xs))"

definition stripDNS :: "string \<Rightarrow> string" where
  \<comment> \<open>\<open>entry.replace(/^DNS:\s*/i, '')\<close>\<close>
  "stripDNS e =
     (if startsWith (toLowerCase e) ''dns:'' then dropWhile isSpace (drop 4 e) else e)"

definition sanEntries :: "string \<Rightarrow> string list" where
  "sanEntries san = filter (\<lambda>e. e \<noteq> []) (map (\<lambda>e. stripDNS (trim e)) (splitOn CHR '','' san))"

text \<open>
  The connection callback up to \<open>finalizeResult\<close>: the running \<open>score\<close>, \<open>warnings\<close> and
  \<open>details\<close> are threaded through the steps in the order of the source. Each step is
  one \<open>if\<close> statement of the callback.
\<close>

type_synonym tls_state = "int \<times> string list \<times> details_bag"

definition protocolStep :: "string option \<Rightarrow> tls_state \<Rightarrow> tls_state" where
  "protocolStep proto st =
     (case st of (sc, ws, ds) \<Rightarrow>
        if truthy proto
        then (if \<not> startsWith (toUpperCase (the proto)) ''TLS''
              then (sc - 10, ws @ [''Insecure protocol negotiated: '' @ the proto],
                    ds @ [(''protocol'', DStr (the proto))])
              else (sc, ws, ds @ [(''protocol'', DStr (the proto))]))
        else (sc, ws, ds))"

definition issuerStep :: "tls_certificate \<Rightarrow> tls_state \<Rightarrow> tls_state" where
  "issuerStep cert st =
     (case st of (sc, ws, ds) \<Rightarrow>
        (let issuerName = formatName (issuer cert)
         in if truthy issuerName then (sc, ws, ds @ [(''issuer'', DStr (the issuerName))])
            else (sc - 3, ws @ [''Certificate issuer information is incomplete.''], ds)))"

definition subjectStep :: "tls_certificate \<Rightarrow> tls_state \<Rightarrow> tls_state" where
  "subjectStep cert st =
     (case st of (sc, ws, ds) \<Rightarrow>
        (let subjectName = formatName (subject cert);
             ds1 = (if truthy subjectName then ds @ [(''subject'', DStr (the subjectName))] else ds);
             ds2 = (if truthy (serialNumber cert)
                    then ds1 @ [(''serialNumber'', DStr (the (serialNumber cert)))] else ds1)
         in (sc, ws, ds2)))"

definition validFromStep :: "(string \<Rightarrow> jsdate) \<Rightarrow> tls_certificate \<Rightarrow> tls_state \<Rightarrow> tls_state" where
  "validFromStep toDate cert st =
     (case st of (sc, ws, ds) \<Rightarrow>
        if truthy (valid_from cert)
        then (case toDate (the (valid_from cert)) of
                Date t \<Rightarrow> (sc, ws, ds @ [(''validFrom'', DDate t)])
              | InvalidDate \<Rightarrow> (sc, ws, ds))
        else (sc, ws, ds))"

definition validToStep ::
  "(string \<Rightarrow> jsdate) \<Rightarrow> int \<Rightarrow> tls_certificate \<Rightarrow> tls_state \<Rightarrow> tls_state" where
  "validToStep toDate nowMs cert st =
     (case st of (sc, ws, ds) \<Rightarrow>
        if truthy (valid_to cert)
        then (case toDate (the (valid_to cert)) of
                Date validTo \<Rightarrow>
                  (let diffMs = validTo - nowMs;
                       daysUntilExpiry = diffMs div (1000 * 60 * 60 * 24);
                       ds' = ds @ [(''validTo'', DDate validTo),
                                   (''daysUntilExpiry'', DNum daysUntilExpiry)]
                   in if daysUntilExpiry < 0
                      then (0, ws @ [''Certificate is expired.''], ds')
                      else if daysUntilExpiry \<le> 7
                      then (sc - 12, ws @ [''Certificate expires within 7 days.''], ds')
                      else if daysUntilExpiry \<le> 30
                      then (sc - 8, ws @ [''Certificate expires within 30 days.''], ds')
                      else if daysUntilExpiry \<le> 90
                      then (sc - 3, ws @ [''Certificate expires within 90 days.''], ds')
                      else (sc, ws, ds'))
              | InvalidDate \<Rightarrow>
                  (sc - 4, ws @ [''Unable to parse certificate expiration date.''], ds))
        else (sc - 6, ws @ [''Certificate expiration date is missing.''], ds))"

definition sanStep :: "string \<Rightarrow> tls_certificate \<Rightarrow> tls_state \<Rightarrow> tls_state" where
  "sanStep host cert st =
     (case st of (sc, ws, ds) \<Rightarrow>
        if truthy (subjectaltname cert)
        then (let entries = sanEntries (the (subjectaltname cert))
              in if length entries > 0
                 then (if \<not> List.member entries host
                       then (sc - 5,
                             ws @ [''Hostname is not explicitly listed in the certificate SAN entries.''],
                             ds @ [(''subjectAltNames'', DList entries)])
                       else (sc, ws, ds @ [(''subjectAltNames'', DList entries)]))
                 else (sc, ws, ds))
        else (sc, ws, ds))"

definition connectionCallback ::
  "(string \<Rightarrow> jsdate) \<Rightarrow> int \<Rightarrow> string \<Rightarrow> nat \<Rightarrow> tls_peer \<Rightarrow> tls_state" where
  "connectionCallback toDate nowMs host portNumber peer =
     (let st0 = (tls_MAX_SCORE, [], [(''host'', DStr host), (''port'', DNum (int portNumber))])
      in case peer of
           PeerFault e \<Rightarrow>
             (case st0 of (sc, ws, ds) \<Rightarrow>
                (min sc 10, ws @ [''TLS inspection failed.''],
                 ds @ [(''error'', (case message e of None \<Rightarrow> DUndefined | Some m \<Rightarrow> DStr m))]))
         | Peer certificate proto \<Rightarrow>
             (let st1 = protocolStep proto st0
              in case certificate of
                   None \<Rightarrow>
                     (case st1 of (sc, ws, ds) \<Rightarrow>
                        (min sc 5, ws @ [''Unable to read TLS certificate details.''], ds))
                 | Some cert \<Rightarrow>
                     sanStep host cert
                       (validToStep toDate nowMs cert
                          (validFromStep toDate cert
                             (subjectStep cert (issuerStep cert st1))))))"

text \<open>
  \<open>checkTLS\<close>. Besides the result, the model returns the list of TLS connections the
  evaluator opened (host and port of each \<open>tls.connect\<close>).
\<close>

definition checkTLS :: "env \<Rightarrow> string \<Rightarrow> (string \<times> nat) list \<times> category" where
  "checkTLS env targetUrl =
     (case parseURL env targetUrl of
        None \<Rightarrow>
          ([], tls_finalizeResult 0
                 [''The URL is not valid, so the TLS certificate could not be checked.''] [])
      | Some parsedUrl \<Rightarrow>
          if protocol parsedUrl \<noteq> ''https:''
          then ([], tls_finalizeResult 0
                      [''Site does not use HTTPS; TLS certificate was not evaluated.'']
                      [(''protocol'', DStr (remove1 CHR '':'' (protocol parsedUrl)))])
          else
            (let portNumber = (case port parsedUrl of Some p \<Rightarrow> p | None \<Rightarrow> 443)
             in ([(hostname parsedUrl, portNumber)],
                 (case tlsConnect env (hostname parsedUrl) portNumber of
                    Connected peer \<Rightarrow>
                      (case connectionCallback (newDate env) (now env) (hostname parsedUrl)
                              portNumber peer of
                         (sc, ws, ds) \<Rightarrow> tls_finalizeResult (of_int sc) ws ds)
                  | ConnectError e \<Rightarrow>
                      tls_finalizeResult 0
                        (filterBoolean [Some ''Could not establish a TLS connection.'', message e])
                        [(''error'', (case message e of None \<Rightarrow> DUndefined | Some m \<Rightarrow> DStr m))]
                  | HandshakeTimeout \<Rightarrow>
                      tls_finalizeResult 0 [''TLS handshake timed out.''] []))))"

section \<open>The header evaluator (checks/headers.js)\<close>

definition headers_CATEGORY_KEY :: string where
  "headers_CATEGORY_KEY = ''headers''"

definition headers_CATEGORY_LABEL :: string where
  "headers_CATEGORY_LABEL = ''Security Headers''"

definition headers_MAX_SCORE :: int where
  "headers_MAX_SCORE = 25"

definition headers_PASSING_THRESHOLD :: int where
  "headers_PASSING_THRESHOLD = 18"

text \<open>
  \<open>normalizeValue\<close>: an array is trimmed entry by entry and joined; \<open>undefined\<close> stays
  \<open>undefined\<close>; a string is trimmed. (The branch for a number is not reachable with
  \<open>hvalue\<close>.)
\<close>

fun normalizeValue :: "hvalue option \<Rightarrow> string option" where
  "normalizeValue (Some (HArr entries)) = Some (join '', '' (map trim entries))"
| "normalizeValue None = None"
| "normalizeValue (Some (HStr v)) = Some (trim v)"

text \<open>\<open>Boolean(headers[k])\<close>: an absent header and the empty string are falsy, an array is truthy.\<close>

fun headerPresent :: "hvalue option \<Rightarrow> bool" where
  "headerPresent None = False"
| "headerPresent (Some (HStr v)) = (v \<noteq> [])"
| "headerPresent (Some (HArr entries)) = True"

text \<open>The regular expressions of the rubric.\<close>

definition re_max_age :: "string \<Rightarrow> bool" where
  \<comment> \<open>\<open>/max-age=\d+/i.test\<close>\<close>
  "re_max_age s =
     anySuffix (\<lambda>t. startsWith (toLowerCase t) ''max-age='' \<and>
                     (case drop 8 t of [] \<Rightarrow> False | d # _ \<Rightarrow> isDigit d)) s"

definition re_frame_ancestors :: "string \<Rightarrow> bool" where
  \<comment> \<open>\<open>/frame-ancestors\s+/i.test\<close>\<close>
  "re_frame_ancestors s =
     anySuffix (\<lambda>t. startsWith (toLowerCase t) ''frame-ancestors'' \<and>
                     (case drop 15 t of [] \<Rightarrow> False | d # _ \<Rightarrow> isSpace d)) s"

definition re_sameorigin_deny :: "string \<Rightarrow> bool" where
  \<comment> \<open>\<open>/sameorigin|deny/i.test\<close>\<close>
  "re_sameorigin_deny s = (testLiteralI ''sameorigin'' s \<or> testLiteralI ''deny'' s)"

definition re_referrer :: "string \<Rightarrow> bool" where
  \<comment> \<open>\<open>/(no-referrer|strict-origin|strict-origin-when-cross-origin)/i.test\<close>\<close>
  "re_referrer s =
     (testLiteralI ''no-referrer'' s \<or> testLiteralI ''strict-origin'' s \<or>
      testLiteralI ''strict-origin-when-cross-origin'' s)"

record header_check =
  check_key :: string
  check_label :: string
  weight :: int
  present :: bool
  valid :: bool
  warning :: string

text \<open>
  \<open>createHeaderChecks\<close>; \<open>headers\<close> is the lower-cased header object, read with
  \<open>map_of\<close>. \<open>valid\<close> is a closure without effects in the source and is evaluated here.
\<close>

definition createHeaderChecks :: "(string \<times> hvalue) list \<Rightarrow> header_check list" where
  "createHeaderChecks hs =
     (let csp = map_of hs ''content-security-policy'';
          cspValue = normalizeValue csp;
          hasFrameAncestors = (truthy cspValue \<and> re_frame_ancestors (the cspValue))
      in
      [ \<lparr>check_key = ''strict-transport-security'',
         check_label = ''HSTS (Strict-Transport-Security)'',
         weight = 5,
         present = headerPresent (map_of hs ''strict-transport-security''),
         valid =
           (let v = normalizeValue (map_of hs ''strict-transport-security'')
            in truthy v \<and> re_max_age (the v)),
         warning = ''Missing Strict-Transport-Security header (HSTS).''\<rparr>,
        \<lparr>check_key = ''content-security-policy'',
         check_label = ''Content-Security-Policy'',
         weight = 5,
         present = headerPresent (map_of hs ''content-security-policy''),
         valid = (truthy cspValue \<and> length (the cspValue) > 0),
         warning = ''Missing Content-Security-Policy header.''\<rparr>,
        \<lparr>check_key = ''x-frame-options'',
         check_label = ''Clickjacking protection'',
         weight = 4,
         present = (headerPresent (map_of hs ''x-frame-options'') \<or> hasFrameAncestors),
         valid =
           (let v = normalizeValue (map_of hs ''x-frame-options'')
            in if truthy v then re_sameorigin_deny (the v) else hasFrameAncestors),
         warning = ''Missing X-Frame-Options header or frame-ancestors directive.''\<rparr>,
        \<lparr>check_key = ''referrer-policy'',
         check_label = ''Referrer-Policy'',
         weight = 4,
         present = headerPresent (map_of hs ''referrer-policy''),
         valid =
           (let v = normalizeValue (map_of hs ''referrer-policy'')
            in truthy v \<and> re_referrer (the v)),
         warning = ''Missing Referrer-Policy header.''\<rparr>,
        \<lparr>check_key = ''permissions-policy'',
         check_label = ''Permissions-Policy'',
         weight = 3,
         present = headerPresent (map_of hs ''permissions-policy''),
         valid =
           (let v = normalizeValue (map_of hs ''permissions-policy'')
            in truthy v \<and> length (the v) > 0),
         warning = ''Missing Permissions-Policy header.''\<rparr>,
        \<lparr>check_key = ''x-content-type-options'',
         check_label = ''X-Content-Type-Options'',
         weight = 4,
         present = headerPresent (map_of hs ''x-content-type-options''),
         valid =
           (let v = normalizeValue (map_of hs ''x-content-type-options'')
            in truthy v \<and> toLowerCase (the v) = ''nosniff''),
         warning = ''Missing X-Content-Type-Options header (nosniff).''\<rparr> ])"

definition headers_finalizeResult :: "rat \<Rightarrow> string list \<Rightarrow> details_bag \<Rightarrow> category" where
  "headers_finalizeResult sc ws ds =
     (let boundedScore = max 0 (min headers_MAX_SCORE (Math_round sc))
      in \<lparr>key = headers_CATEGORY_KEY,
          label = headers_CATEGORY_LABEL,
          score = boundedScore,
          maxScore = headers_MAX_SCORE,
          passed = (boundedScore \<ge> headers_PASSING_THRESHOLD),
          warnings = ws,
          details = ds\<rparr>)"

text \<open>\<open>extractHeaders\<close>: the header object with lower-cased keys (a later entry overwrites).\<close>

definition extractHeaders :: "response option \<Rightarrow> (string \<times> hvalue) list" where
  "extractHeaders r =
     (case r of
        None \<Rightarrow> []
      | Some resp \<Rightarrow>
          (case headers resp of
             None \<Rightarrow> []
           | Some entries \<Rightarrow>
               fold (\<lambda>(rawKey, v) acc. AList.update (toLowerCase rawKey) v acc) entries []))"

text \<open>
  The evaluators reuse the shared response; without one they fetch on their own, and
  \<open>refetch\<close> is the outcome of that \<open>axios.get\<close>. The result is the response to inspect
  (if any) and the captured error.
\<close>

definition obtainResponse :: "axios_outcome \<Rightarrow> fetch_context \<Rightarrow> response option \<times> fault option" where
  "obtainResponse refetch context =
     (case ctx_response context of
        Some r \<Rightarrow> (Some r, ctx_fetchError context)
      | None \<Rightarrow>
          (case refetch of
             Responded r \<Rightarrow> (Some r, ctx_fetchError context)
           | Failed e r \<Rightarrow> (r, Some e)))"

text \<open>The checks that fail: \<open>!check.present || !check.valid()\<close>.\<close>

definition failing :: "header_check \<Rightarrow> bool" where
  "failing c = (\<not> present c \<or> \<not> valid c)"

definition checkHeaders :: "axios_outcome \<Rightarrow> string \<Rightarrow> fetch_context \<Rightarrow> category" where
  "checkHeaders refetch targetUrl context =
     (case obtainResponse refetch context of
        (None, capturedError) \<Rightarrow>
          headers_finalizeResult 0
            (filterBoolean
               [Some ''Unable to retrieve the site response headers.'', messageOf capturedError])
            []
      | (Some resp, capturedError) \<Rightarrow>
          (let hs = extractHeaders (Some resp);
               checks = createHeaderChecks hs;
               presentHeaders = map (\<lambda>(k, v). (k, the (normalizeValue (Some v)))) hs;
               (ws, sc) =
                 fold (\<lambda>c (ws, sc). if failing c then (ws @ [warning c], sc - weight c) else (ws, sc))
                      checks ([], headers_MAX_SCORE)
           in headers_finalizeResult (of_int sc) ws
                [(''statusCode'', DNum (status resp)),
                 (''finalUrl'', DStr (firstTruthy (responseUrl resp) (configUrl resp) targetUrl)),
                 (''presentHeaders'', DObj presentHeaders),
                 (''missing'', DList (map check_label (filter failing checks)))]))"

section \<open>The cookie evaluator (checks/cookies.js)\<close>

definition cookies_CATEGORY_KEY :: string where
  "cookies_CATEGORY_KEY = ''cookies''"

definition cookies_CATEGORY_LABEL :: string where
  "cookies_CATEGORY_LABEL = ''Cookie Security''"

definition cookies_MAX_SCORE :: int where
  "cookies_MAX_SCORE = 25"

definition cookies_PASSING_THRESHOLD :: int where
  "cookies_PASSING_THRESHOLD = 18"

definition sanitizeSameSite :: "string option \<Rightarrow> string option" where
  "sanitizeSameSite v = (if \<not> truthy v then None else Some (toLowerCase (the v)))"

definition cookies_finalizeResult :: "rat \<Rightarrow> string list \<Rightarrow> details_bag \<Rightarrow> category" where
  "cookies_finalizeResult sc ws ds =
     (let boundedScore = max 0 (min cookies_MAX_SCORE (Math_round sc))
      in \<lparr>key = cookies_CATEGORY_KEY,
          label = cookies_CATEGORY_LABEL,
          score = boundedScore,
          maxScore = cookies_MAX_SCORE,
          passed = (boundedScore \<ge> cookies_PASSING_THRESHOLD),
          warnings = ws,
          details = ds\<rparr>)"

text \<open>\<open>cookie.name?.startsWith(p)\<close>: falsy when the cookie has no name.\<close>

fun nameStartsWith :: "string option \<Rightarrow> string \<Rightarrow> bool" where
  "nameStartsWith None p = False"
| "nameStartsWith (Some n) p = startsWith n p"

definition analyzeCookieIssues :: "cookie \<Rightarrow> string list" where
  "analyzeCookieIssues c =
     (let sameSite' = sanitizeSameSite (sameSite c);
          i1 = (if \<not> secure c then [''Missing Secure attribute.''] else []);
          i2 = (if \<not> httpOnly c then [''Missing HttpOnly attribute.''] else []);
          i3 = (if \<not> truthy sameSite' then [''Missing SameSite attribute.'']
                else if sameSite' = Some ''none'' \<and> \<not> secure c
                then [''SameSite=None cookies must also be Secure.'']
                else []);
          i4 = (if nameStartsWith (name c) ''__Secure-'' \<and> \<not> secure c
                then [''__Secure- cookies must set the Secure flag.''] else []);
          i5 = (if nameStartsWith (name c) ''__Host-''
                then (if \<not> secure c then [''__Host- cookies must set the Secure flag.''] else [])
                   @ (if path c \<noteq> Some ''/'' then [''__Host- cookies must have Path=/''] else [])
                   @ (if truthy (domain c)
                      then [''__Host- cookies must not specify a Domain attribute.''] else [])
                else [])
      in i1 @ i2 @ i3 @ i4 @ i5)"

text \<open>
  The callback of \<open>parsedCookies.map\<close>. It adds five points per issue to the running
  \<open>penalty\<close> and builds the cookie's entry for the details;
  \<open>new Date(cookie.expires).toISOString()\<close> raises \<open>RangeError\<close> when the date is invalid.
\<close>

definition RangeError_invalid_time :: fault where
  "RangeError_invalid_time = \<lparr>message = Some ''Invalid time value''\<rparr>"

definition cookieWithDetails :: "cookie \<Rightarrow> int \<Rightarrow> fault + (cookie_detail \<times> int)" where
  "cookieWithDetails c penalty =
     (let issues = analyzeCookieIssues c;
          penalty' = (if length issues > 0 then penalty + int (length issues) * 5 else penalty)
      in case expires c of
           Some InvalidDate \<Rightarrow> Inl RangeError_invalid_time
         | Some (Date t) \<Rightarrow>
             Inr (\<lparr>cd_name = name c, cd_domain = domain c, cd_path = path c,
                   cd_expires = Some t, cd_secure = secure c, cd_httpOnly = httpOnly c,
                   cd_sameSite = sanitizeSameSite (sameSite c), cd_issues = issues\<rparr>, penalty')
         | None \<Rightarrow>
             Inr (\<lparr>cd_name = name c, cd_domain = domain c, cd_path = path c,
                   cd_expires = None, cd_secure = secure c, cd_httpOnly = httpOnly c,
                   cd_sameSite = sanitizeSameSite (sameSite c), cd_issues = issues\<rparr>, penalty'))"

text \<open>\<open>parsedCookies.map(...)\<close>, left to right, stopping at the first fault.\<close>

fun mapCookies :: "cookie list \<Rightarrow> int \<Rightarrow> fault + (cookie_detail list \<times> int)" where
  "mapCookies [] penalty = Inr ([], penalty)"
| "mapCookies (c # cs) penalty =
     (case cookieWithDetails c penalty of
        Inl e \<Rightarrow> Inl e
      | Inr (d, penalty') \<Rightarrow>
          (case mapCookies cs penalty' of
             Inl e \<Rightarrow> Inl e
           | Inr (ds, penalty'') \<Rightarrow> Inr (d # ds, penalty'')))"

text \<open>\<open>!setCookieHeader || setCookieHeader.length === 0\<close>.\<close>

fun noSetCookie :: "hvalue option \<Rightarrow> bool" where
  "noSetCookie None = True"
| "noSetCookie (Some (HStr v)) = (v = [])"
| "noSetCookie (Some (HArr entries)) = (length entries = 0)"

text \<open>The name as the template literal prints it.\<close>

fun nameText :: "string option \<Rightarrow> string" where
  "nameText None = ''undefined''"
| "nameText (Some n) = n"

definition checkCookies ::
  "(hvalue \<Rightarrow> cookie list) \<Rightarrow> axios_outcome \<Rightarrow> string \<Rightarrow> fetch_context \<Rightarrow> fault + category" where
  "checkCookies parseCookies refetch targetUrl context =
     (case obtainResponse refetch context of
        (None, capturedError) \<Rightarrow>
          Inr (cookies_finalizeResult 0
                 (filterBoolean [Some ''Unable to retrieve response cookies.'', messageOf capturedError])
                 [])
      | (Some resp, capturedError) \<Rightarrow>
          (let setCookieHeader =
                 (case headers resp of None \<Rightarrow> None | Some entries \<Rightarrow> map_of entries ''set-cookie'')
           in if noSetCookie setCookieHeader
              then Inr (cookies_finalizeResult (of_int cookies_MAX_SCORE) []
                          [(''totalCookies'', DNum 0),
                           (''note'', DStr ''No cookies were set during the initial request.'')])
              else
                (let parsedCookies = parseCookies (the setCookieHeader)
                 in case mapCookies parsedCookies 0 of
                      Inl e \<Rightarrow> Inl e
                    | Inr (cookiesWithDetails, penalty) \<Rightarrow>
                        (let sc = max 0 (cookies_MAX_SCORE - min cookies_MAX_SCORE penalty);
                             insecureCookies =
                               filter (\<lambda>d. length (cd_issues d) > 0) cookiesWithDetails;
                             ws = map (\<lambda>d. nameText (cd_name d) @ '': '' @ join '' '' (cd_issues d))
                                      insecureCookies
                         in Inr (cookies_finalizeResult (of_int sc) ws
                                   [(''totalCookies'', DNum (int (length parsedCookies))),
                                    (''insecureCookies'', DNum (int (length insecureCookies))),
                                    (''cookies'', DCookies cookiesWithDetails)])))))"

section \<open>The WHOIS evaluator (checks/whois.js)\<close>

definition whois_CATEGORY_KEY :: string where
  "whois_CATEGORY_KEY = ''whois''"

definition whois_CATEGORY_LABEL :: string where
  "whois_CATEGORY_LABEL = ''Domain WHOIS''"

definition whois_MAX_SCORE :: int where
  "whois_MAX_SCORE = 25"

definition whois_PASSING_THRESHOLD :: int where
  "whois_PASSING_THRESHOLD = 18"

definition normalizeKey :: "string \<Rightarrow> string" where
  \<comment> \<open>\<open>key.toLowerCase().replace(/[\s_-]/g, '')\<close>\<close>
  "normalizeKey k =
     filter (\<lambda>c. \<not> (isSpace c \<or> c = CHR ''_'' \<or> c = CHR ''-'')) (toLowerCase k)"

definition normalizeRecord :: "(string \<times> wvalue) list \<Rightarrow> (string \<times> wvalue) list" where
  "normalizeRecord record =
     fold (\<lambda>(k, v) acc. AList.update (normalizeKey k) v acc) record []"

fun pickValue :: "(string \<times> wvalue) list \<Rightarrow> string list \<Rightarrow> wvalue option" where
  "pickValue record [] = None"
| "pickValue record (k # keys) =
     (case map_of record (normalizeKey k) of
        Some v \<Rightarrow> Some v
      | None \<Rightarrow> pickValue record keys)"

text \<open>Truthiness of a record value that may be \<open>undefined\<close>.\<close>

fun wtruthy :: "wvalue option \<Rightarrow> bool" where
  "wtruthy None = False"
| "wtruthy (Some (WStr v)) = (v \<noteq> [])"
| "wtruthy (Some (WArr vs)) = True"
| "wtruthy (Some (WOther b)) = b"

text \<open>\<open>parseDate\<close>: the time value of the date, \<open>None\<close> for \<open>undefined\<close>.\<close>

definition parseDate :: "(string \<Rightarrow> jsdate) \<Rightarrow> wvalue option \<Rightarrow> int option" where
  "parseDate toDate v =
     (if \<not> wtruthy v then None
      else
        (let candidate =
               (case v of
                  Some (WArr vs) \<Rightarrow> (case vs of [] \<Rightarrow> None | x # _ \<Rightarrow> Some x)
                | Some (WStr x) \<Rightarrow> Some x
                | _ \<Rightarrow> None)
         in case candidate of
              None \<Rightarrow> None
            | Some c \<Rightarrow>
                (let cleaned = trim c
                 in case toDate cleaned of InvalidDate \<Rightarrow> None | Date t \<Rightarrow> Some t)))"

definition splitWhitespace :: "string \<Rightarrow> string list" where
  \<comment> \<open>\<open>value.split(/\s+/).map(trim).filter(Boolean)\<close>: the maximal runs without white space\<close>
  "splitWhitespace v =
     filter (\<lambda>w. w \<noteq> [])
       (fold (\<lambda>c acc. if isSpace c then acc @ [[]] else butlast acc @ [last acc @ [c]]) v [[]])"

fun toArray :: "wvalue option \<Rightarrow> string list" where
  "toArray None = []"
| "toArray (Some (WArr vs)) = vs"
| "toArray (Some (WStr v)) = (if v = [] then [] else splitWhitespace v)"
| "toArray (Some (WOther b)) = []"

definition whois_finalizeResult :: "rat \<Rightarrow> string list \<Rightarrow> details_bag \<Rightarrow> category" where
  "whois_finalizeResult sc ws ds =
     (let boundedScore = max 0 (min whois_MAX_SCORE (Math_round sc))
      in \<lparr>key = whois_CATEGORY_KEY,
          label = whois_CATEGORY_LABEL,
          score = boundedScore,
          maxScore = whois_MAX_SCORE,
          passed = (boundedScore \<ge> whois_PASSING_THRESHOLD),
          warnings = ws,
          details = ds\<rparr>)"

text \<open>The registrar as the details report it.\<close>

fun wdetail :: "wvalue option \<Rightarrow> dvalue" where
  "wdetail None = DUndefined"
| "wdetail (Some (WStr v)) = DStr v"
| "wdetail (Some (WArr vs)) = DList vs"
| "wdetail (Some (WOther b)) = DUndefined"

text \<open>
  The scoring part of \<open>checkWhois\<close>, from \<open>const warnings = []\<close> on: the score before
  \<open>finalizeResult\<close>, the warnings and the details.
\<close>

definition whoisScore ::
  "int \<Rightarrow> string \<Rightarrow> int option \<Rightarrow> int option \<Rightarrow> wvalue option \<Rightarrow> string list
     \<Rightarrow> int \<times> string list \<times> details_bag" where
  "whoisScore nowMs domainName creationDate expiryDate registrar nameServers =
     (let ws0 = [];
          sc0 = whois_MAX_SCORE;
          ds0 = [(''domain'', DStr domainName), (''registrar'', wdetail registrar),
                 (''nameServers'', DList nameServers)];
          (sc1, ws1, ds1) =
            (case creationDate of
               Some t \<Rightarrow>
                 (let domainAgeDays = (nowMs - t) div DAY_IN_MS;
                      ds = ds0 @ [(''creationDate'', DDate t), (''domainAgeDays'', DNum domainAgeDays)]
                  in if domainAgeDays < 30
                     then (sc0 - 12, ws0 @ [''Domain was registered within the last 30 days.''], ds)
                     else if domainAgeDays < 180
                     then (sc0 - 6,
                           ws0 @ [''Domain is relatively new (less than six months old).''], ds)
                     else (sc0, ws0, ds))
             | None \<Rightarrow> (sc0 - 6, ws0 @ [''Unable to determine domain creation date.''], ds0));
          (sc2, ws2, ds2) =
            (case expiryDate of
               Some t \<Rightarrow>
                 (let daysUntilExpiry = (t - nowMs) div DAY_IN_MS;
                      ds = ds1 @ [(''expiryDate'', DDate t), (''daysUntilExpiry'', DNum daysUntilExpiry)]
                  in if daysUntilExpiry \<le> 0
                     then (sc1 - 10, ws1 @ [''Domain appears to be expired.''], ds)
                     else if daysUntilExpiry \<le> 30
                     then (sc1 - 6, ws1 @ [''Domain expires within the next 30 days.''], ds)
                     else (sc1, ws1, ds))
             | None \<Rightarrow> (sc1 - 5, ws1 @ [''Unable to determine domain expiry date.''], ds1));
          (sc3, ws3) =
            (if \<not> wtruthy registrar
             then (sc2 - 3, ws2 @ [''Registrar information is missing.''])
             else (sc2, ws2))
      in (sc3, ws3, ds2))"

definition creationAliases :: "string list" where
  "creationAliases =
     [''creationdate'', ''createddate'', ''creationtime'', ''domaincreatedate'',
      ''registrationtime'', ''domainregistrationdate'', ''registered'']"

definition expiryAliases :: "string list" where
  "expiryAliases =
     [''registryexpirydate'', ''expirationdate'', ''expirydate'', ''registrarexpirationdate'',
      ''domainexpirydate'']"

definition registrarAliases :: "string list" where
  "registrarAliases =
     [''registrar'', ''registrarname'', ''registrarorganization'', ''sponsoringregistrar'']"

definition nameServerAliases :: "string list" where
  "nameServerAliases = [''nameserver'', ''nameservers'', ''nameserverserver'']"

definition checkWhois :: "env \<Rightarrow> string \<Rightarrow> category" where
  "checkWhois env targetUrl =
     (case parseURL env targetUrl of
        None \<Rightarrow>
          whois_finalizeResult 0
            [''The URL is not valid, so WHOIS information could not be checked.''] []
      | Some parsedUrl \<Rightarrow>
          (case pslDomain env (hostname parsedUrl) of
             None \<Rightarrow>
               whois_finalizeResult 0
                 [''Unable to determine a registrable domain for WHOIS lookup.'']
                 [(''hostname'', DStr (hostname parsedUrl))]
           | Some domainName \<Rightarrow>
               (if domainName = [] then
                  whois_finalizeResult 0
                    [''Unable to determine a registrable domain for WHOIS lookup.'']
                    [(''hostname'', DStr (hostname parsedUrl))]
                else
                  (case whoisLookup env domainName of
                     LookupFailed e \<Rightarrow>
                       whois_finalizeResult 0
                         (filterBoolean [Some ''WHOIS lookup failed.'', message e])
                         [(''hostname'', DStr (hostname parsedUrl))]
                   | LookupRecord None \<Rightarrow>
                       whois_finalizeResult 0 [''WHOIS lookup did not return any data.'']
                         [(''hostname'', DStr (hostname parsedUrl))]
                   | LookupRecord (Some record) \<Rightarrow>
                       (if length record = 0 then
                          whois_finalizeResult 0 [''WHOIS lookup did not return any data.'']
                            [(''hostname'', DStr (hostname parsedUrl))]
                        else
                          (let normalized = normalizeRecord record;
                               creationDate =
                                 parseDate (newDate env) (pickValue normalized creationAliases);
                               expiryDate =
                                 parseDate (newDate env) (pickValue normalized expiryAliases);
                               registrar =
                                 (let r = pickValue normalized registrarAliases
                                  in if wtruthy r then r else None);
                               nameServers = toArray (pickValue normalized nameServerAliases);
                               (sc, ws, ds) =
                                 whoisScore (now env) domainName creationDate expiryDate registrar
                                   nameServers
                           in whois_finalizeResult (of_int sc) ws ds))))))"

section \<open>The aggregator (server entry module)\<close>

record overall =
  total :: int
  max_total :: int
  rating :: string

text \<open>
  \<open>summarizeOverall\<close>. The two \<open>reduce\<close> calls are folds from 0; \<open>category.score || 0\<close>
  is the score itself on a number (0 stays 0).
\<close>

definition summarizeOverall :: "category list \<Rightarrow> overall" where
  "summarizeOverall categories =
     (let totalScore = fold (\<lambda>category sum. sum + score category) categories 0;
          totalMaxScore = fold (\<lambda>category sum. sum + maxScore category) categories 0;
          normalizedScore =
            (if totalMaxScore > 0
             then Math_round ((of_int totalScore / of_int totalMaxScore) * 100)
             else 0);
          rating0 = ''Safe'';
          rating1 =
            (if normalizedScore < 50 then ''Dangerous''
             else if normalizedScore < 60 then ''Warning''
             else rating0)
      in \<lparr>total = normalizedScore, max_total = 100, rating = rating1\<rparr>)"

text \<open>\<open>fetchSiteResponse\<close>: the pair \<open>{response, error}\<close>; it never throws.\<close>

definition fetchSiteResponse :: "axios_outcome \<Rightarrow> response option \<times> fault option" where
  "fetchSiteResponse outcome =
     (case outcome of
        Responded r \<Rightarrow> (Some r, None)
      | Failed e (Some r) \<Rightarrow> (Some r, Some e)
      | Failed e None \<Rightarrow> (None, Some e))"

text \<open>
  The task table of the handler, without the closures \<open>fn\<close>, and an entry of what
  \<open>Promise.allSettled\<close> returns: it keeps the order of the tasks.
\<close>

record task =
  task_key :: string
  task_label :: string
  task_maxScore :: "int option"

definition tasks :: "task list" where
  "tasks =
     [\<lparr>task_key = ''tls'', task_label = ''HTTPS & TLS'', task_maxScore = Some tls_MAX_SCORE\<rparr>,
      \<lparr>task_key = ''headers'', task_label = ''Security Headers'',
       task_maxScore = Some headers_MAX_SCORE\<rparr>,
      \<lparr>task_key = ''cookies'', task_label = ''Cookie Security'',
       task_maxScore = Some cookies_MAX_SCORE\<rparr>,
      \<lparr>task_key = ''whois'', task_label = ''Domain WHOIS'', task_maxScore = Some whois_MAX_SCORE\<rparr>]"

datatype settled = Fulfilled category | Rejected fault

text \<open>Decimal digits of an index, for the template \<open>check-${index}\<close>.\<close>

fun indexText :: "nat \<Rightarrow> string" where
  "indexText n =
     (if n < 10 then [char_of (48 + n)] else indexText (n div 10) @ [char_of (48 + n mod 10)])"

text \<open>The callback of \<open>results.map\<close>.\<close>

definition categoryOf :: "settled \<Rightarrow> nat \<Rightarrow> category" where
  "categoryOf result index =
     (case result of
        Fulfilled v \<Rightarrow> v
      | Rejected reason \<Rightarrow>
          (let fallback = tasks ! index
           in \<lparr>key = (if task_key fallback \<noteq> [] then task_key fallback
                       else ''check-'' @ indexText index),
               label = (if task_label fallback \<noteq> [] then task_label fallback
                        else ''Unknown Check''),
               score = 0,
               maxScore = (case task_maxScore fallback of Some m \<Rightarrow> m | None \<Rightarrow> 25),
               passed = False,
               warnings = filterBoolean [Some ''Check failed to complete.'', message reason],
               details =
                 [(''error'', (case message reason of None \<Rightarrow> DUndefined | Some m \<Rightarrow> DStr m))]\<rparr>))"

definition categoriesOf :: "settled list \<Rightarrow> category list" where
  "categoriesOf results = map (\<lambda>(result, index). categoryOf result index) (zip results [0 ..< length results])"

record check_result =
  url :: string
  fetchedAt :: int
  overallScore :: overall
  categories :: "category list"
  http_status :: "int option"
  http_finalUrl :: string
  http_error :: "string option"

datatype reply = BadRequest string | Ok check_result

text \<open>A promise of an evaluator, settled.\<close>

fun settle :: "fault + category \<Rightarrow> settled" where
  "settle (Inl e) = Rejected e"
| "settle (Inr c) = Fulfilled c"

text \<open>
  The handler of \<open>POST /api/check\<close>; \<open>body_url\<close> is \<open>req.body.url\<close>. \<open>BadRequest\<close> is the
  reply with status 400, \<open>Ok\<close> the JSON reply with status 200.
\<close>

definition apiCheck :: "env \<Rightarrow> string option \<Rightarrow> reply" where
  "apiCheck env body_url =
     (if \<not> truthy body_url then BadRequest ''Please provide a url in the request body.''
      else
        (case parseURL env (the body_url) of
           None \<Rightarrow> BadRequest ''The provided URL is not valid.''
         | Some parsedUrl \<Rightarrow>
             if \<not> List.member [''http:'', ''https:''] (protocol parsedUrl)
             then BadRequest ''Only HTTP and HTTPS URLs can be checked by this service.''
             else
               (let sanitizedUrl = href parsedUrl;
                    (siteResponse, fetchError) = fetchSiteResponse (siteFetch env sanitizedUrl);
                    sharedContext = \<lparr>ctx_response = siteResponse, ctx_fetchError = fetchError\<rparr>;
                    results =
                      [Fulfilled (snd (checkTLS env sanitizedUrl)),
                       Fulfilled (checkHeaders (headersFetch env sanitizedUrl) sanitizedUrl sharedContext),
                       settle (checkCookies (parseSetCookie env) (cookiesFetch env sanitizedUrl)
                                 sanitizedUrl sharedContext),
                       Fulfilled (checkWhois env sanitizedUrl)];
                    cats = categoriesOf results;
                    overall = summarizeOverall cats
                in Ok \<lparr>url = sanitizedUrl,
                       fetchedAt = now env,
                       overallScore = overall,
                       categories = cats,
                       http_status = map_option status siteResponse,
                       http_finalUrl =
                         (case siteResponse of
                            None \<Rightarrow> sanitizedUrl
                          | Some r \<Rightarrow> firstTruthy (responseUrl r) (configUrl r) sanitizedUrl),
                       http_error =
                         (case (fetchError, siteResponse) of
                            (Some e, None) \<Rightarrow> message e
                          | _ \<Rightarrow> None)\<rparr>)))"

text \<open>A category result that carries nothing but a score out of 25 (used in examples).\<close>

definition scored :: "int \<Rightarrow> category" where
  "scored s = \<lparr>key = [], label = [], score = s, maxScore = 25, passed = (s \<ge> 18),
               warnings = [], details = []\<rparr>"

section \<open>Predicates of the properties, and example inputs\<close>

text \<open>
  The invariant of a category result: an integer score between 0 and the maximum, the
  maximum 25, and \<open>passed\<close> the comparison of the score with the threshold 18.
\<close>

definition wellFormed :: "category \<Rightarrow> bool" where
  "wellFormed c =
     (0 \<le> score c \<and> score c \<le> maxScore c \<and> maxScore c = 25 \<and> passed c = (score c \<ge> 18))"

text \<open>The entry that replaces the result of the task at index \<open>i\<close> when its promise rejects.\<close>

definition fallbackCategory :: "nat \<Rightarrow> fault \<Rightarrow> category" where
  "fallbackCategory i e =
     \<lparr>key = [''tls'', ''headers'', ''cookies'', ''whois''] ! i,
      label = [''HTTPS & TLS'', ''Security Headers'', ''Cookie Security'', ''Domain WHOIS''] ! i,
      score = 0, maxScore = 25, passed = False,
      warnings = ''Check failed to complete.'' #
         (case message e of None \<Rightarrow> [] | Some m \<Rightarrow> if m = [] then [] else [m]),
      details = [(''error'', (case message e of None \<Rightarrow> DUndefined | Some m \<Rightarrow> DStr m))]\<rparr>"

text \<open>The shared fetch context the handler builds for a sanitized URL.\<close>

definition sharedContextOf :: "env \<Rightarrow> string \<Rightarrow> fetch_context" where
  "sharedContextOf env sanitizedUrl =
     \<lparr>ctx_response = fst (fetchSiteResponse (siteFetch env sanitizedUrl)),
      ctx_fetchError = snd (fetchSiteResponse (siteFetch env sanitizedUrl))\<rparr>"

text \<open>
  The claim about Referrer-Policy read by its words: the value is one of the three
  policies named (compared after trimming, without regard to case).
\<close>

definition spec_referrer_matches :: "string \<Rightarrow> bool" where
  "spec_referrer_matches v =
     (toLowerCase (trim v) = ''no-referrer'' \<or> toLowerCase (trim v) = ''strict-origin'' \<or>
      toLowerCase (trim v) = ''strict-origin-when-cross-origin'')"

text \<open>A string contains a literal, without regard to case.\<close>

definition containsI :: "string \<Rightarrow> string \<Rightarrow> bool" where
  "containsI v lit = (\<exists>before after. toLowerCase v = before @ lit @ after)"

text \<open>The keys and labels of the six checks of the header rubric.\<close>

definition rubricKeys :: "string list" where
  "rubricKeys =
     [''strict-transport-security'', ''content-security-policy'', ''x-frame-options'',
      ''referrer-policy'', ''permissions-policy'', ''x-content-type-options'']"

definition rubricLabels :: "string list" where
  "rubricLabels =
     [''HSTS (Strict-Transport-Security)'', ''Content-Security-Policy'',
      ''Clickjacking protection'', ''Referrer-Policy'', ''Permissions-Policy'',
      ''X-Content-Type-Options'']"

text \<open>
  When each check of the header rubric passes, stated on the header values (the
  normalised value of a header is its trimmed text, the entries of an array trimmed and
  joined). \<open>containsThenI v lit Q\<close>: \<open>v\<close> contains \<open>lit\<close>, without regard to case, followed
  by a character that satisfies \<open>Q\<close>.
\<close>

definition containsThenI :: "string \<Rightarrow> string \<Rightarrow> (char \<Rightarrow> bool) \<Rightarrow> bool" where
  "containsThenI v lit Q =
     (\<exists>before m d after. v = before @ m @ d # after \<and> toLowerCase m = lit \<and> Q d)"

definition hstsPasses :: "(string \<times> hvalue) list \<Rightarrow> bool" where
  \<comment> \<open>the value holds \<open>max-age=\<close> and a digit\<close>
  "hstsPasses hs =
     (\<exists>v. normalizeValue (map_of hs ''strict-transport-security'') = Some v \<and>
          containsThenI v ''max-age='' isDigit)"

definition cspPasses :: "(string \<times> hvalue) list \<Rightarrow> bool" where
  \<comment> \<open>the value is not empty\<close>
  "cspPasses hs =
     (\<exists>v. normalizeValue (map_of hs ''content-security-policy'') = Some v \<and> v \<noteq> [])"

definition frameAncestorsDeclared :: "(string \<times> hvalue) list \<Rightarrow> bool" where
  \<comment> \<open>the policy holds \<open>frame-ancestors\<close> and white space\<close>
  "frameAncestorsDeclared hs =
     (\<exists>v. normalizeValue (map_of hs ''content-security-policy'') = Some v \<and>
          containsThenI v ''frame-ancestors'' isSpace)"

definition clickjackingPasses :: "(string \<times> hvalue) list \<Rightarrow> bool" where
  \<comment> \<open>a non-empty X-Frame-Options decides by its text, else the policy's directive does\<close>
  "clickjackingPasses hs =
     (case normalizeValue (map_of hs ''x-frame-options'') of
        None \<Rightarrow> frameAncestorsDeclared hs
      | Some v \<Rightarrow>
          if v = [] then frameAncestorsDeclared hs
          else containsI v ''sameorigin'' \<or> containsI v ''deny'')"

definition referrerPasses :: "(string \<times> hvalue) list \<Rightarrow> bool" where
  \<comment> \<open>the value holds \<open>no-referrer\<close> or \<open>strict-origin\<close>\<close>
  "referrerPasses hs =
     (\<exists>v. normalizeValue (map_of hs ''referrer-policy'') = Some v \<and>
          (containsI v ''no-referrer'' \<or> containsI v ''strict-origin''))"

definition permissionsPasses :: "(string \<times> hvalue) list \<Rightarrow> bool" where
  \<comment> \<open>the value is not empty\<close>
  "permissionsPasses hs =
     (\<exists>v. normalizeValue (map_of hs ''permissions-policy'') = Some v \<and> v \<noteq> [])"

definition nosniffPasses :: "(string \<times> hvalue) list \<Rightarrow> bool" where
  \<comment> \<open>the value is \<open>nosniff\<close>, in any case\<close>
  "nosniffPasses hs =
     (\<exists>v. normalizeValue (map_of hs ''x-content-type-options'') = Some v \<and>
          toLowerCase v = ''nosniff'')"

text \<open>The penalty, the warnings and the missing labels these conditions give.\<close>

definition rubricPenalty :: "(string \<times> hvalue) list \<Rightarrow> int" where
  "rubricPenalty hs =
     (if hstsPasses hs then 0 else 5) + (if cspPasses hs then 0 else 5) +
     (if clickjackingPasses hs then 0 else 4) + (if referrerPasses hs then 0 else 4) +
     (if permissionsPasses hs then 0 else 3) + (if nosniffPasses hs then 0 else 4)"

definition rubricMissing :: "(string \<times> hvalue) list \<Rightarrow> string list" where
  "rubricMissing hs =
     (if hstsPasses hs then [] else [''HSTS (Strict-Transport-Security)'']) @
     (if cspPasses hs then [] else [''Content-Security-Policy'']) @
     (if clickjackingPasses hs then [] else [''Clickjacking protection'']) @
     (if referrerPasses hs then [] else [''Referrer-Policy'']) @
     (if permissionsPasses hs then [] else [''Permissions-Policy'']) @
     (if nosniffPasses hs then [] else [''X-Content-Type-Options''])"

definition rubricWarnings :: "(string \<times> hvalue) list \<Rightarrow> string list" where
  "rubricWarnings hs =
     (if hstsPasses hs then [] else [''Missing Strict-Transport-Security header (HSTS).'']) @
     (if cspPasses hs then [] else [''Missing Content-Security-Policy header.'']) @
     (if clickjackingPasses hs then []
      else [''Missing X-Frame-Options header or frame-ancestors directive.'']) @
     (if referrerPasses hs then [] else [''Missing Referrer-Policy header.'']) @
     (if permissionsPasses hs then [] else [''Missing Permissions-Policy header.'']) @
     (if nosniffPasses hs then [] else [''Missing X-Content-Type-Options header (nosniff).''])"

text \<open>
  A response whose Referrer-Policy is in order and whose other five headers are present
  with values the rubric does not accept.
\<close>

definition junkResponse :: response where
  "junkResponse =
     \<lparr>status = 200,
      headers = Some
        [(''Strict-Transport-Security'', HStr ''includeSubDomains''),
         (''Content-Security-Policy'', HStr ''  ''),
         (''X-Frame-Options'', HStr ''ALLOWALL''),
         (''Referrer-Policy'', HStr ''no-referrer''),
         (''Permissions-Policy'', HStr '' ''),
         (''X-Content-Type-Options'', HStr ''sniff'')],
      responseUrl = None, configUrl = None\<rparr>"

definition bareResponse :: response where
  "bareResponse = \<lparr>status = 200, headers = Some [(''Content-Type'', HStr ''text/html'')],
                    responseUrl = None, configUrl = None\<rparr>"

definition downgradeResponse :: response where
  "downgradeResponse =
     \<lparr>status = 200, headers = Some [(''Referrer-Policy'', HStr ''no-referrer-when-downgrade'')],
      responseUrl = None, configUrl = None\<rparr>"

definition noContext :: fetch_context where
  "noContext = \<lparr>ctx_response = None, ctx_fetchError = None\<rparr>"

text \<open>
  An example site: \<open>https://www.example.com/\<close> with a certificate valid until 2030, the
  six headers of the rubric, one well-formed cookie, and a WHOIS record; the clock stands
  at 2026-01-01. Times are milliseconds since the epoch.
\<close>

definition exampleUrl :: parsed_url where
  "exampleUrl = \<lparr>href = ''https://www.example.com/'', protocol = ''https:'',
                  hostname = ''www.example.com'', port = None\<rparr>"

definition exampleHttpUrl :: parsed_url where
  "exampleHttpUrl = \<lparr>href = ''http://www.example.com/'', protocol = ''http:'',
                      hostname = ''www.example.com'', port = None\<rparr>"

definition exampleCertificate :: tls_certificate where
  "exampleCertificate =
     Certificate (Some [(''C'', ''US''), (''O'', ''Example CA''), (''CN'', ''E1'')])
       (Some [(''CN'', ''www.example.com'')]) (Some ''0A1B'')
       (Some ''2020'') (Some ''2030'') (Some ''DNS:example.com, DNS:www.example.com'')"

definition exampleHeaders :: "(string \<times> hvalue) list" where
  "exampleHeaders =
     [(''Strict-Transport-Security'', HStr ''max-age=31536000; includeSubDomains''),
      (''Content-Security-Policy'', HStr ''default-src https:''),
      (''X-Frame-Options'', HStr ''DENY''),
      (''Referrer-Policy'', HStr ''strict-origin-when-cross-origin''),
      (''Permissions-Policy'', HStr ''geolocation=()''),
      (''X-Content-Type-Options'', HStr ''nosniff''),
      (''set-cookie'', HArr [''__Host-session=1; Secure; HttpOnly; Path=/; SameSite=Strict''])]"

definition exampleResponse :: response where
  "exampleResponse = \<lparr>status = 200, headers = Some exampleHeaders,
                       responseUrl = Some ''https://www.example.com/'', configUrl = None\<rparr>"

definition exampleCookie :: cookie where
  "exampleCookie = \<lparr>name = Some ''__Host-session'', domain = None, path = Some ''/'',
                     expires = None, secure = True, httpOnly = True, sameSite = Some ''Strict''\<rparr>"

definition exampleRecord :: "(string \<times> wvalue) list" where
  "exampleRecord =
     [(''domainName'', WStr ''EXAMPLE.COM''), (''creationDate'', WStr ''2020''),
      (''registryExpiryDate'', WStr ''2030''), (''registrar'', WStr ''Example Registrar'')]"

definition exampleDates :: "string \<Rightarrow> jsdate" where
  "exampleDates s =
     (if s = ''2020'' then Date 1577836800000
      else if s = ''2030'' then Date 1893456000000
      else InvalidDate)"

definition exampleEnv :: env where
  "exampleEnv =
     \<lparr>parseURL = (\<lambda>s. if s = ''https://www.example.com/'' then Some exampleUrl
                      else if s = ''http://www.example.com/'' then Some exampleHttpUrl
                      else None),
      siteFetch = (\<lambda>u. Responded exampleResponse),
      headersFetch = (\<lambda>u. Responded exampleResponse),
      cookiesFetch = (\<lambda>u. Responded exampleResponse),
      parseSetCookie = (\<lambda>h. [exampleCookie]),
      tlsConnect = (\<lambda>h p. Connected (Peer (Some exampleCertificate) (Some ''TLSv1.3''))),
      pslDomain = (\<lambda>h. Some ''example.com''),
      whoisLookup = (\<lambda>d. LookupRecord (Some exampleRecord)),
      newDate = exampleDates,
      now = 1767225600000\<rparr>"

text \<open>The same site sending a cookie whose \<open>Expires\<close> attribute is not a date.\<close>

definition badExpiresCookie :: cookie where
  "badExpiresCookie = \<lparr>name = Some ''sid'', domain = None, path = Some ''/'',
                        expires = Some InvalidDate, secure = True, httpOnly = True,
                        sameSite = Some ''Strict''\<rparr>"

definition badExpiresEnv :: env where
  "badExpiresEnv = exampleEnv\<lparr>parseSetCookie := (\<lambda>h. [badExpiresCookie])\<rparr>"

text \<open>
  The conditions of the TLS callback's penalties other than the expiry: the negotiated
  protocol does not start with TLS (10), the issuer has no name (3), the certificate
  lists alternative names and the host is not among them (5).
\<close>

definition insecureProtocol :: "string option \<Rightarrow> bool" where
  "insecureProtocol proto = (truthy proto \<and> \<not> startsWith (toUpperCase (the proto)) ''TLS'')"

definition issuerIncomplete :: "tls_certificate \<Rightarrow> bool" where
  "issuerIncomplete cert = (\<not> truthy (formatName (issuer cert)))"

definition sanMismatch :: "string \<Rightarrow> tls_certificate \<Rightarrow> bool" where
  "sanMismatch host cert =
     (truthy (subjectaltname cert) \<and> length (sanEntries (the (subjectaltname cert))) > 0 \<and>
      \<not> List.member (sanEntries (the (subjectaltname cert))) host)"

definition otherPenalties :: "string option \<Rightarrow> string \<Rightarrow> tls_certificate \<Rightarrow> int" where
  "otherPenalties proto host cert =
     (if insecureProtocol proto then 10 else 0) + (if issuerIncomplete cert then 3 else 0) +
     (if sanMismatch host cert then 5 else 0)"

text \<open>
  What the certificate says about its expiry: no \<open>valid_to\<close>, one that is not a date,
  or the whole days left until it (negative once expired).
\<close>

datatype expiry = ExpiryMissing | ExpiryUnparsable | ExpiresIn int

definition certExpiry :: "(string \<Rightarrow> jsdate) \<Rightarrow> int \<Rightarrow> tls_certificate \<Rightarrow> expiry" where
  "certExpiry toDate nowMs cert =
     (if \<not> truthy (valid_to cert) then ExpiryMissing
      else (case toDate (the (valid_to cert)) of
              InvalidDate \<Rightarrow> ExpiryUnparsable
            | Date t \<Rightarrow> ExpiresIn ((t - nowMs) div (1000 * 60 * 60 * 24))))"

text \<open>The expiry bracket: the closest one that contains the days left.\<close>

definition bracketPenalty :: "int \<Rightarrow> int" where
  "bracketPenalty d = (if d \<le> 7 then 12 else if d \<le> 30 then 8 else if d \<le> 90 then 3 else 0)"

text \<open>The port the TLS evaluator connects to.\<close>

definition portOf :: "parsed_url \<Rightarrow> nat" where
  "portOf u = (case port u of Some p \<Rightarrow> p | None \<Rightarrow> 443)"

text \<open>The example site with a certificate that expired (valid until 2020).\<close>

definition expiredCertificate :: tls_certificate where
  "expiredCertificate =
     Certificate (Some [(''C'', ''US''), (''O'', ''Example CA''), (''CN'', ''E1'')])
       (Some [(''CN'', ''www.example.com'')]) (Some ''0A1B'')
       (Some ''2019'') (Some ''2020'') (Some ''DNS:example.com, DNS:www.example.com'')"

definition expiredEnv :: env where
  "expiredEnv =
     exampleEnv\<lparr>tlsConnect :=
       (\<lambda>h p. Connected (Peer (Some expiredCertificate) (Some ''TLSv1.3'')))\<rparr>"

text \<open>
  The three penalties of the WHOIS score, as functions of the creation date, the expiry
  date (time values, \<open>None\<close> when unknown) and the registrar.
\<close>

definition agePenalty :: "int \<Rightarrow> int option \<Rightarrow> int" where
  "agePenalty nowMs creationDate =
     (case creationDate of
        None \<Rightarrow> 6
      | Some t \<Rightarrow>
          (let domainAgeDays = (nowMs - t) div DAY_IN_MS
           in if domainAgeDays < 30 then 12 else if domainAgeDays < 180 then 6 else 0))"

definition expiryPenalty :: "int \<Rightarrow> int option \<Rightarrow> int" where
  "expiryPenalty nowMs expiryDate =
     (case expiryDate of
        None \<Rightarrow> 5
      | Some t \<Rightarrow>
          (let daysUntilExpiry = (t - nowMs) div DAY_IN_MS
           in if daysUntilExpiry \<le> 0 then 10 else if daysUntilExpiry \<le> 30 then 6 else 0))"

definition registrarPenalty :: "wvalue option \<Rightarrow> int" where
  "registrarPenalty registrar = (if wtruthy registrar then 0 else 3)"

text \<open>A record of a domain registered ten days before the clock of the example, whose
  expiry date is not a date and which names no registrar.\<close>

definition youngRecord :: "(string \<times> wvalue) list" where
  "youngRecord =
     [(''Domain Name'', WStr ''EXAMPLE.COM''), (''Creation Date'', WStr '' 2025-12-22 ''),
      (''Registry Expiry Date'', WStr ''TBD'')]"

definition youngEnv :: env where
  "youngEnv =
     exampleEnv\<lparr>whoisLookup := (\<lambda>d. LookupRecord (Some youngRecord)),
                 newDate := (\<lambda>s. if s = ''2025-12-22'' then Date 1766361600000 else InvalidDate)\<rparr>"

section \<open>Properties of the aggregator: the overall score\<close>

lemma fold_add_score: "fold (\<lambda>c s. s + f c) cs (a::int) = a + sum_list (map f cs)"
  by (induction cs arbitrary: a) simp_all

lemma Math_round_of_int: "Math_round (of_int n) = n"
  unfolding Math_round_def by linarith

lemma Math_round_numeral: "Math_round (numeral k) = numeral k"
  using Math_round_of_int [of "numeral k"] by simp

lemma Math_round_0: "Math_round 0 = 0"
  using Math_round_of_int [of 0] by simp

text \<open>
  A value within one half of an integer rounds to it. The total is computed in double
  precision in the source; for four results out of 25 the quotient \<open>s / 100 * 100\<close>
  differs from the integer \<open>s\<close> by rounding errors far below one half, so the exact
  arithmetic of the model gives the same total.
\<close>

lemma Math_round_near:
  assumes "\<bar>y - of_int n\<bar> < 1 / 2"
  shows "Math_round y = n"
  using assms unfolding Math_round_def by linarith

lemma summarizeOverall_max_100:
  assumes "sum_list (map maxScore cs) = 100"
  shows "total (summarizeOverall cs) = sum_list (map score cs)"
  using assms by (simp add: summarizeOverall_def Let_def fold_add_score Math_round_of_int)

text \<open>
  C1. The overall score is \<open>round (100 * sum score / sum maxScore)\<close>, and 0 when the
  sum of the maxScores is not positive; the rating is the step function of the total:
  Dangerous below 50, Warning from 50 to 59, Safe from 60. Totals 49, 50, 59 and 60 are
  reached by four results out of 25 each and rate Dangerous, Warning, Warning, Safe.
\<close>

theorem summarizeOverall_total_rating:
  "total (summarizeOverall cs) =
     (if sum_list (map maxScore cs) = 0 then 0
      else if 0 < sum_list (map maxScore cs)
      then Math_round (100 * of_int (sum_list (map score cs)) / of_int (sum_list (map maxScore cs)))
      else 0)
   \<and> (rating (summarizeOverall cs) = ''Dangerous'' \<longleftrightarrow> total (summarizeOverall cs) < 50)
   \<and> (rating (summarizeOverall cs) = ''Warning'' \<longleftrightarrow>
        50 \<le> total (summarizeOverall cs) \<and> total (summarizeOverall cs) < 60)
   \<and> (rating (summarizeOverall cs) = ''Safe'' \<longleftrightarrow> 60 \<le> total (summarizeOverall cs))
   \<and> max_total (summarizeOverall cs) = 100
   \<and> summarizeOverall (map scored [12, 12, 12, 13]) = \<lparr>total = 49, max_total = 100, rating = ''Dangerous''\<rparr>
   \<and> summarizeOverall (map scored [25, 25, 0, 0]) = \<lparr>total = 50, max_total = 100, rating = ''Warning''\<rparr>
   \<and> summarizeOverall (map scored [25, 25, 9, 0]) = \<lparr>total = 59, max_total = 100, rating = ''Warning''\<rparr>
   \<and> summarizeOverall (map scored [25, 25, 10, 0]) = \<lparr>total = 60, max_total = 100, rating = ''Safe''\<rparr>"
proof -
  have general: "total (summarizeOverall cs) =
     (if sum_list (map maxScore cs) = 0 then 0
      else if 0 < sum_list (map maxScore cs)
      then Math_round (100 * of_int (sum_list (map score cs)) / of_int (sum_list (map maxScore cs)))
      else 0)"
    by (simp add: summarizeOverall_def Let_def fold_add_score mult.commute)
  have steps: "(rating (summarizeOverall cs) = ''Dangerous'' \<longleftrightarrow> total (summarizeOverall cs) < 50)
     \<and> (rating (summarizeOverall cs) = ''Warning'' \<longleftrightarrow>
          50 \<le> total (summarizeOverall cs) \<and> total (summarizeOverall cs) < 60)
     \<and> (rating (summarizeOverall cs) = ''Safe'' \<longleftrightarrow> 60 \<le> total (summarizeOverall cs))
     \<and> max_total (summarizeOverall cs) = 100"
    by (simp add: summarizeOverall_def Let_def)
  have at49: "summarizeOverall (map scored [12, 12, 12, 13]) =
      \<lparr>total = 49, max_total = 100, rating = ''Dangerous''\<rparr>"
    by (simp add: summarizeOverall_def Let_def scored_def Math_round_numeral)
  have at50: "summarizeOverall (map scored [25, 25, 0, 0]) =
      \<lparr>total = 50, max_total = 100, rating = ''Warning''\<rparr>"
    by (simp add: summarizeOverall_def Let_def scored_def Math_round_numeral)
  have at59: "summarizeOverall (map scored [25, 25, 9, 0]) =
      \<lparr>total = 59, max_total = 100, rating = ''Warning''\<rparr>"
    by (simp add: summarizeOverall_def Let_def scored_def Math_round_numeral)
  have at60: "summarizeOverall (map scored [25, 25, 10, 0]) =
      \<lparr>total = 60, max_total = 100, rating = ''Safe''\<rparr>"
    by (simp add: summarizeOverall_def Let_def scored_def Math_round_numeral)
  from general steps at49 at50 at59 at60 show ?thesis by blast
qed

section \<open>Properties of the evaluators' results\<close>

lemma tls_finalizeResult_sel:
  "score (tls_finalizeResult sc ws ds) = max 0 (min 25 (Math_round sc))"
  "maxScore (tls_finalizeResult sc ws ds) = 25"
  "passed (tls_finalizeResult sc ws ds) = (18 \<le> max 0 (min 25 (Math_round sc)))"
  "key (tls_finalizeResult sc ws ds) = ''tls''"
  "label (tls_finalizeResult sc ws ds) = ''HTTPS & TLS''"
  "warnings (tls_finalizeResult sc ws ds) = ws"
  "details (tls_finalizeResult sc ws ds) = ds"
  by (simp_all add: tls_finalizeResult_def Let_def tls_MAX_SCORE_def tls_PASSING_THRESHOLD_def
      tls_CATEGORY_KEY_def tls_CATEGORY_LABEL_def)

lemma headers_finalizeResult_sel:
  "score (headers_finalizeResult sc ws ds) = max 0 (min 25 (Math_round sc))"
  "maxScore (headers_finalizeResult sc ws ds) = 25"
  "passed (headers_finalizeResult sc ws ds) = (18 \<le> max 0 (min 25 (Math_round sc)))"
  "key (headers_finalizeResult sc ws ds) = ''headers''"
  "label (headers_finalizeResult sc ws ds) = ''Security Headers''"
  "warnings (headers_finalizeResult sc ws ds) = ws"
  "details (headers_finalizeResult sc ws ds) = ds"
  by (simp_all add: headers_finalizeResult_def Let_def headers_MAX_SCORE_def
      headers_PASSING_THRESHOLD_def headers_CATEGORY_KEY_def headers_CATEGORY_LABEL_def)

lemma cookies_finalizeResult_sel:
  "score (cookies_finalizeResult sc ws ds) = max 0 (min 25 (Math_round sc))"
  "maxScore (cookies_finalizeResult sc ws ds) = 25"
  "passed (cookies_finalizeResult sc ws ds) = (18 \<le> max 0 (min 25 (Math_round sc)))"
  "key (cookies_finalizeResult sc ws ds) = ''cookies''"
  "label (cookies_finalizeResult sc ws ds) = ''Cookie Security''"
  "warnings (cookies_finalizeResult sc ws ds) = ws"
  "details (cookies_finalizeResult sc ws ds) = ds"
  by (simp_all add: cookies_finalizeResult_def Let_def cookies_MAX_SCORE_def
      cookies_PASSING_THRESHOLD_def cookies_CATEGORY_KEY_def cookies_CATEGORY_LABEL_def)

lemma whois_finalizeResult_sel:
  "score (whois_finalizeResult sc ws ds) = max 0 (min 25 (Math_round sc))"
  "maxScore (whois_finalizeResult sc ws ds) = 25"
  "passed (whois_finalizeResult sc ws ds) = (18 \<le> max 0 (min 25 (Math_round sc)))"
  "key (whois_finalizeResult sc ws ds) = ''whois''"
  "label (whois_finalizeResult sc ws ds) = ''Domain WHOIS''"
  "warnings (whois_finalizeResult sc ws ds) = ws"
  "details (whois_finalizeResult sc ws ds) = ds"
  by (simp_all add: whois_finalizeResult_def Let_def whois_MAX_SCORE_def
      whois_PASSING_THRESHOLD_def whois_CATEGORY_KEY_def whois_CATEGORY_LABEL_def)

lemma finalizeResult_int:
  "score (tls_finalizeResult (of_int n) ws ds) = max 0 (min 25 n)"
  "score (headers_finalizeResult (of_int n) ws ds) = max 0 (min 25 n)"
  "score (cookies_finalizeResult (of_int n) ws ds) = max 0 (min 25 n)"
  "score (whois_finalizeResult (of_int n) ws ds) = max 0 (min 25 n)"
  by (simp_all only: tls_finalizeResult_sel headers_finalizeResult_sel cookies_finalizeResult_sel
      whois_finalizeResult_sel Math_round_of_int)

lemma wellFormed_finalize:
  "wellFormed (tls_finalizeResult sc ws ds)"
  "wellFormed (headers_finalizeResult sc ws ds)"
  "wellFormed (cookies_finalizeResult sc ws ds)"
  "wellFormed (whois_finalizeResult sc ws ds)"
  by (simp_all add: wellFormed_def tls_finalizeResult_sel headers_finalizeResult_sel
      cookies_finalizeResult_sel whois_finalizeResult_sel)

lemma checkTLS_wellFormed: "wellFormed (snd (checkTLS env u))"
  by (simp add: checkTLS_def Let_def wellFormed_finalize
      split: option.splits tls_outcome.splits prod.splits)

lemma checkHeaders_wellFormed: "wellFormed (checkHeaders refetch u ctx)"
  by (simp add: checkHeaders_def Let_def wellFormed_finalize
      split: option.splits prod.splits)

lemma checkCookies_wellFormed: "checkCookies pc refetch u ctx = Inr c \<Longrightarrow> wellFormed c"
  by (auto simp add: checkCookies_def Let_def wellFormed_finalize
      split: option.splits prod.splits sum.splits if_splits)

lemma checkWhois_wellFormed: "wellFormed (checkWhois env u)"
  by (simp add: checkWhois_def Let_def wellFormed_finalize
      split: option.splits prod.splits whois_outcome.splits)

lemma key_checkCookies: "checkCookies pc refetch u ctx = Inr c \<Longrightarrow> key c = ''cookies''"
  by (auto simp add: checkCookies_def Let_def cookies_finalizeResult_sel
      split: option.splits prod.splits sum.splits if_splits)

lemma key_checkTLS: "key (snd (checkTLS env u)) = ''tls''"
  by (simp add: checkTLS_def Let_def tls_finalizeResult_sel
      split: option.splits tls_outcome.splits prod.splits)

lemma key_checkHeaders: "key (checkHeaders refetch u ctx) = ''headers''"
  by (simp add: checkHeaders_def Let_def headers_finalizeResult_sel
      split: option.splits prod.splits)

lemma key_checkWhois: "key (checkWhois env u) = ''whois''"
  by (simp add: checkWhois_def Let_def whois_finalizeResult_sel
      split: option.splits prod.splits whois_outcome.splits)

text \<open>
  C3. Every category result the four evaluators return is well formed, on every return
  path (each one ends in the module's \<open>finalizeResult\<close>): the score is an integer with
  \<open>0 \<le> score \<le> maxScore\<close>, \<open>maxScore = 25\<close>, and \<open>passed\<close> holds exactly when the score is
  at least 18. The cookie evaluator may also end in a fault; then it returns no result.
\<close>

theorem evaluator_results_bounded:
  "wellFormed (snd (checkTLS env u))
   \<and> wellFormed (checkHeaders refetch u ctx)
   \<and> (case checkCookies pc refetch u ctx of Inl e \<Rightarrow> True | Inr c \<Rightarrow> wellFormed c)
   \<and> wellFormed (checkWhois env u)"
  by (simp add: checkTLS_wellFormed checkHeaders_wellFormed checkCookies_wellFormed
      checkWhois_wellFormed split: sum.splits)

theorem evaluator_results_bounded_witness:
  "wellFormed (snd (checkTLS exampleEnv ''https://www.example.com/''))
   \<and> wellFormed (checkHeaders (Responded exampleResponse) ''https://www.example.com/''
         \<lparr>ctx_response = None, ctx_fetchError = None\<rparr>)
   \<and> (case checkCookies (\<lambda>h. [exampleCookie]) (Responded exampleResponse)
              ''https://www.example.com/'' \<lparr>ctx_response = None, ctx_fetchError = None\<rparr> of
         Inl e \<Rightarrow> True | Inr c \<Rightarrow> wellFormed c)
   \<and> wellFormed (checkWhois exampleEnv ''https://www.example.com/'')"
  using evaluator_results_bounded [of exampleEnv "''https://www.example.com/''"
      "Responded exampleResponse" "\<lparr>ctx_response = None, ctx_fetchError = None\<rparr>"
      "\<lambda>h. [exampleCookie]"]
  by simp

section \<open>Properties of the request handler\<close>

lemma categoriesOf4:
  "categoriesOf [a, b, c, d] = [categoryOf a 0, categoryOf b 1, categoryOf c 2, categoryOf d 3]"
  by (simp add: categoriesOf_def upt_rec numeral_2_eq_2 numeral_3_eq_3)

lemma categoryOf_Rejected:
  "i < 4 \<Longrightarrow> categoryOf (Rejected e) i = fallbackCategory i e"
proof -
  assume "i < 4"
  then have "i = 0 \<or> i = 1 \<or> i = 2 \<or> i = 3" by arith
  then show ?thesis
    by (elim disjE)
      (simp_all add: categoryOf_def fallbackCategory_def tasks_def Let_def tls_MAX_SCORE_def
        headers_MAX_SCORE_def cookies_MAX_SCORE_def whois_MAX_SCORE_def split: option.splits)
qed

lemma categoryOf_Fulfilled: "categoryOf (Fulfilled c) i = c"
  by (simp add: categoryOf_def)

text \<open>
  C2. A request that passes URL validation is answered with exactly four category
  results, in the order tls, headers, cookies, whois, and with the overall score of
  these four. An entry is the evaluator's own result when its promise is fulfilled; when
  the promise rejects, the entry at that index is the fallback: the task's key and
  label, score 0, maxScore 25, \<open>passed = false\<close>, the warning
  \<open>Check failed to complete.\<close> followed by the fault's message (when it has one), and
  the other entries are untouched.
\<close>

lemma categoryOf_settle:
  "categoryOf (settle x) 2 = (case x of Inl reason \<Rightarrow> fallbackCategory 2 reason | Inr c \<Rightarrow> c)"
  by (cases x) (simp_all add: categoryOf_Fulfilled categoryOf_Rejected)

lemma apiCheck_valid:
  assumes "truthy b" and "parseURL env (the b) = Some pu"
    and "protocol pu = ''http:'' \<or> protocol pu = ''https:''"
  shows "\<exists>r. apiCheck env b = Ok r \<and> url r = href pu \<and>
           categories r = categoriesOf
             [Fulfilled (snd (checkTLS env (href pu))),
              Fulfilled (checkHeaders (headersFetch env (href pu)) (href pu)
                 (sharedContextOf env (href pu))),
              settle (checkCookies (parseSetCookie env) (cookiesFetch env (href pu)) (href pu)
                 (sharedContextOf env (href pu))),
              Fulfilled (checkWhois env (href pu))] \<and>
           overallScore r = summarizeOverall (categories r)"
  using assms by (auto simp add: apiCheck_def Let_def sharedContextOf_def split: prod.splits)

lemma apiCheck_Ok:
  assumes "apiCheck env b = Ok r"
  shows "\<exists>pu. truthy b \<and> parseURL env (the b) = Some pu \<and>
           (protocol pu = ''http:'' \<or> protocol pu = ''https:'')"
  using assms by (auto simp add: apiCheck_def Let_def split: prod.splits option.splits if_splits)

lemma wellFormed_fallback: "i < 4 \<Longrightarrow> wellFormed (fallbackCategory i e)"
  by (simp add: wellFormed_def fallbackCategory_def)

lemma wellFormed_settle:
  "wellFormed (categoryOf (settle (checkCookies pc refetch u ctx)) 2)"
proof (cases "checkCookies pc refetch u ctx")
  case (Inl e)
  then show ?thesis by (simp add: categoryOf_Rejected wellFormed_fallback)
next
  case (Inr c)
  then show ?thesis by (simp add: categoryOf_Fulfilled checkCookies_wellFormed)
qed

lemma key_settle:
  "key (categoryOf (settle (checkCookies pc refetch u ctx)) 2) = ''cookies''"
proof (cases "checkCookies pc refetch u ctx")
  case (Inl e)
  then show ?thesis by (simp add: categoryOf_Rejected fallbackCategory_def)
next
  case (Inr c)
  then show ?thesis by (simp add: categoryOf_Fulfilled key_checkCookies)
qed

lemma summarizeOverall_four:
  assumes "wellFormed c1" "wellFormed c2" "wellFormed c3" "wellFormed c4"
  shows "total (summarizeOverall [c1, c2, c3, c4]) = score c1 + score c2 + score c3 + score c4"
proof -
  have "sum_list (map maxScore [c1, c2, c3, c4]) = 100"
    using assms by (simp add: wellFormed_def)
  from summarizeOverall_max_100 [OF this] show ?thesis by simp
qed

lemma example_valid:
  "truthy (Some ''https://www.example.com/'')"
  "parseURL exampleEnv (the (Some ''https://www.example.com/'')) = Some exampleUrl"
  "parseURL badExpiresEnv (the (Some ''https://www.example.com/'')) = Some exampleUrl"
  "protocol exampleUrl = ''http:'' \<or> protocol exampleUrl = ''https:''"
  by (simp_all add: exampleEnv_def badExpiresEnv_def exampleUrl_def)

lemma analyze_badExpires: "analyzeCookieIssues badExpiresCookie = []"
  by (simp add: analyzeCookieIssues_def badExpiresCookie_def sanitizeSameSite_def Let_def
      startsWith_def toLowerCase_def)

lemma checkCookies_badExpires:
  "checkCookies (\<lambda>h. [badExpiresCookie]) (Responded exampleResponse) u
     \<lparr>ctx_response = Some exampleResponse, ctx_fetchError = None\<rparr> = Inl RangeError_invalid_time"
  by (simp add: checkCookies_def obtainResponse_def exampleResponse_def exampleHeaders_def
      badExpiresCookie_def cookieWithDetails_def Let_def)

theorem apiCheck_four_categories:
  "(truthy body_url \<and> parseURL env (the body_url) = Some pu
      \<and> (protocol pu = ''http:'' \<or> protocol pu = ''https:'') \<longrightarrow>
      (\<exists>r. apiCheck env body_url = Ok r
         \<and> length (categories r) = 4
         \<and> map key (categories r) = [''tls'', ''headers'', ''cookies'', ''whois'']
         \<and> overallScore r = summarizeOverall (categories r)
         \<and> categories r ! 0 = snd (checkTLS env (href pu))
         \<and> categories r ! 1 =
               checkHeaders (headersFetch env (href pu)) (href pu)
                 (sharedContextOf env (href pu))
         \<and> categories r ! 2 =
               (case checkCookies (parseSetCookie env) (cookiesFetch env (href pu)) (href pu)
                  (sharedContextOf env (href pu)) of
                  Inl reason \<Rightarrow> fallbackCategory 2 reason
                | Inr c \<Rightarrow> c)
         \<and> categories r ! 3 = checkWhois env (href pu)))
   \<and> (length results = 4 \<longrightarrow>
        length (categoriesOf results) = 4
        \<and> (\<forall>i < 4. categoriesOf results ! i =
              (case results ! i of
                 Fulfilled c \<Rightarrow> c
               | Rejected reason \<Rightarrow> fallbackCategory i reason)))"
proof (intro conjI impI)
  assume a: "truthy body_url \<and> parseURL env (the body_url) = Some pu
      \<and> (protocol pu = ''http:'' \<or> protocol pu = ''https:'')"
  then have v: "truthy body_url" "parseURL env (the body_url) = Some pu"
       "protocol pu = ''http:'' \<or> protocol pu = ''https:''" by simp_all
  from apiCheck_valid [OF v] obtain r where
    r: "apiCheck env body_url = Ok r" and
    cs: "categories r = categoriesOf
             [Fulfilled (snd (checkTLS env (href pu))),
              Fulfilled (checkHeaders (headersFetch env (href pu)) (href pu)
                 (sharedContextOf env (href pu))),
              settle (checkCookies (parseSetCookie env) (cookiesFetch env (href pu)) (href pu)
                 (sharedContextOf env (href pu))),
              Fulfilled (checkWhois env (href pu))]" and
    ov: "overallScore r = summarizeOverall (categories r)" by blast
  have k: "length (categories r) = 4
         \<and> map key (categories r) = [''tls'', ''headers'', ''cookies'', ''whois'']"
    unfolding cs categoriesOf4
    by (simp add: categoryOf_Fulfilled key_checkTLS key_checkHeaders key_checkWhois key_settle)
  have "categories r ! 0 = snd (checkTLS env (href pu))
         \<and> categories r ! 1 =
               checkHeaders (headersFetch env (href pu)) (href pu)
                 (sharedContextOf env (href pu))
         \<and> categories r ! 2 =
               (case checkCookies (parseSetCookie env) (cookiesFetch env (href pu)) (href pu)
                  (sharedContextOf env (href pu)) of
                  Inl reason \<Rightarrow> fallbackCategory 2 reason
                | Inr c \<Rightarrow> c)
         \<and> categories r ! 3 = checkWhois env (href pu)"
    unfolding cs categoriesOf4
    by (simp add: categoryOf_Fulfilled categoryOf_settle)
  with k have "length (categories r) = 4
         \<and> map key (categories r) = [''tls'', ''headers'', ''cookies'', ''whois'']
         \<and> categories r ! 0 = snd (checkTLS env (href pu))
         \<and> categories r ! 1 =
               checkHeaders (headersFetch env (href pu)) (href pu)
                 (sharedContextOf env (href pu))
         \<and> categories r ! 2 =
               (case checkCookies (parseSetCookie env) (cookiesFetch env (href pu)) (href pu)
                  (sharedContextOf env (href pu)) of
                  Inl reason \<Rightarrow> fallbackCategory 2 reason
                | Inr c \<Rightarrow> c)
         \<and> categories r ! 3 = checkWhois env (href pu)"
    by simp
  with r ov have "apiCheck env body_url = Ok r
         \<and> length (categories r) = 4
         \<and> map key (categories r) = [''tls'', ''headers'', ''cookies'', ''whois'']
         \<and> overallScore r = summarizeOverall (categories r)
         \<and> categories r ! 0 = snd (checkTLS env (href pu))
         \<and> categories r ! 1 =
               checkHeaders (headersFetch env (href pu)) (href pu)
                 (sharedContextOf env (href pu))
         \<and> categories r ! 2 =
               (case checkCookies (parseSetCookie env) (cookiesFetch env (href pu)) (href pu)
                  (sharedContextOf env (href pu)) of
                  Inl reason \<Rightarrow> fallbackCategory 2 reason
                | Inr c \<Rightarrow> c)
         \<and> categories r ! 3 = checkWhois env (href pu)" by simp
  then show "\<exists>r. apiCheck env body_url = Ok r
         \<and> length (categories r) = 4
         \<and> map key (categories r) = [''tls'', ''headers'', ''cookies'', ''whois'']
         \<and> overallScore r = summarizeOverall (categories r)
         \<and> categories r ! 0 = snd (checkTLS env (href pu))
         \<and> categories r ! 1 =
               checkHeaders (headersFetch env (href pu)) (href pu)
                 (sharedContextOf env (href pu))
         \<and> categories r ! 2 =
               (case checkCookies (parseSetCookie env) (cookiesFetch env (href pu)) (href pu)
                  (sharedContextOf env (href pu)) of
                  Inl reason \<Rightarrow> fallbackCategory 2 reason
                | Inr c \<Rightarrow> c)
         \<and> categories r ! 3 = checkWhois env (href pu)" by (rule exI)
next
  assume "length results = 4"
  then show "length (categoriesOf results) = 4" by (simp add: categoriesOf_def)
next
  assume len: "length results = 4"
  then have "length results = Suc (Suc (Suc (Suc 0)))" by simp
  then obtain a b c d where rs: "results = [a, b, c, d]"
    by (auto simp add: length_Suc_conv)
  show "\<forall>i < 4. categoriesOf results ! i =
              (case results ! i of
                 Fulfilled c \<Rightarrow> c
               | Rejected reason \<Rightarrow> fallbackCategory i reason)"
  proof (intro allI impI)
    fix i :: nat assume i: "i < 4"
    then have "i = 0 \<or> i = 1 \<or> i = 2 \<or> i = 3" by arith
    then show "categoriesOf results ! i =
              (case results ! i of
                 Fulfilled c \<Rightarrow> c
               | Rejected reason \<Rightarrow> fallbackCategory i reason)"
      unfolding rs categoriesOf4
      by (elim disjE)
        (simp_all add: categoryOf_Fulfilled categoryOf_Rejected split: settled.splits)
  qed
qed

theorem apiCheck_four_categories_witness:
  "truthy (Some ''https://www.example.com/'')
   \<and> parseURL badExpiresEnv (the (Some ''https://www.example.com/'')) = Some exampleUrl
   \<and> (protocol exampleUrl = ''http:'' \<or> protocol exampleUrl = ''https:'')
   \<and> (\<exists>r. apiCheck badExpiresEnv (Some ''https://www.example.com/'') = Ok r
          \<and> length (categories r) = 4
          \<and> map key (categories r) = [''tls'', ''headers'', ''cookies'', ''whois'']
          \<and> categories r ! 2 = fallbackCategory 2 RangeError_invalid_time)
   \<and> length [Fulfilled (scored 20), Fulfilled (scored 25), Rejected RangeError_invalid_time,
               Fulfilled (scored 19)] = 4
   \<and> categoriesOf [Fulfilled (scored 20), Fulfilled (scored 25), Rejected RangeError_invalid_time,
                     Fulfilled (scored 19)] ! 2 = fallbackCategory 2 RangeError_invalid_time
   \<and> categoriesOf [Fulfilled (scored 20), Fulfilled (scored 25), Rejected RangeError_invalid_time,
                     Fulfilled (scored 19)] ! 3 = scored 19
   \<and> warnings (fallbackCategory 2 RangeError_invalid_time) =
         [''Check failed to complete.'', ''Invalid time value'']"
proof -
  let ?rs = "[Fulfilled (scored 20), Fulfilled (scored 25), Rejected RangeError_invalid_time,
              Fulfilled (scored 19)]"
  note t = apiCheck_four_categories
    [of "Some ''https://www.example.com/''" badExpiresEnv exampleUrl ?rs]
  have h: "truthy (Some ''https://www.example.com/'')
     \<and> parseURL badExpiresEnv (the (Some ''https://www.example.com/'')) = Some exampleUrl
     \<and> (protocol exampleUrl = ''http:'' \<or> protocol exampleUrl = ''https:'')"
    using example_valid by simp
  from mp [OF conjunct1 [OF t] h]
  obtain r where r: "apiCheck badExpiresEnv (Some ''https://www.example.com/'') = Ok r"
      "length (categories r) = 4"
      "map key (categories r) = [''tls'', ''headers'', ''cookies'', ''whois'']"
      "categories r ! 2 =
         (case checkCookies (parseSetCookie badExpiresEnv)
                 (cookiesFetch badExpiresEnv (href exampleUrl)) (href exampleUrl)
                 (sharedContextOf badExpiresEnv (href exampleUrl)) of
            Inl reason \<Rightarrow> fallbackCategory 2 reason
          | Inr c \<Rightarrow> c)"
    by (elim exE conjE)
  have ck: "checkCookies (parseSetCookie badExpiresEnv)
                 (cookiesFetch badExpiresEnv (href exampleUrl)) (href exampleUrl)
                 (sharedContextOf badExpiresEnv (href exampleUrl))
            = Inl RangeError_invalid_time"
    by (simp add: badExpiresEnv_def exampleEnv_def fetchSiteResponse_def sharedContextOf_def
        checkCookies_badExpires)
  have p1: "\<exists>r. apiCheck badExpiresEnv (Some ''https://www.example.com/'') = Ok r
          \<and> length (categories r) = 4
          \<and> map key (categories r) = [''tls'', ''headers'', ''cookies'', ''whois'']
          \<and> categories r ! 2 = fallbackCategory 2 RangeError_invalid_time"
    by (rule exI [of _ r]) (simp add: r ck)
  have len: "length ?rs = 4" by simp
  from mp [OF conjunct2 [OF t] len] have all: "\<forall>i < 4. categoriesOf ?rs ! i =
      (case ?rs ! i of Fulfilled c \<Rightarrow> c | Rejected reason \<Rightarrow> fallbackCategory i reason)"
    by (rule conjunct2)
  have "(2::nat) < 4" by simp
  from mp [OF spec [OF all] this]
  have p2: "categoriesOf ?rs ! 2 = fallbackCategory 2 RangeError_invalid_time"
    by simp
  have "(3::nat) < 4" by simp
  from mp [OF spec [OF all] this]
  have p3: "categoriesOf ?rs ! 3 = scored 19" by simp
  have w: "warnings (fallbackCategory 2 RangeError_invalid_time) =
         [''Check failed to complete.'', ''Invalid time value'']"
    by (simp add: fallbackCategory_def RangeError_invalid_time_def)
  from h p1 len p2 p3 w show ?thesis by (intro conjI) simp_all
qed

text \<open>
  C10. In every reply of a check that reaches aggregation the four entries carry
  \<open>maxScore = 25\<close>, the maxScores add up to 100, and the overall total is the plain sum
  of the four scores, between 0 and 100.
\<close>

theorem apiCheck_total_is_sum:
  assumes "apiCheck env body_url = Ok r"
  shows "length (categories r) = 4
     \<and> list_all (\<lambda>c. maxScore c = 25) (categories r)
     \<and> sum_list (map maxScore (categories r)) = 100
     \<and> total (overallScore r) = sum_list (map score (categories r))
     \<and> 0 \<le> total (overallScore r) \<and> total (overallScore r) \<le> 100"
proof -
  from apiCheck_Ok [OF assms] obtain pu where
    v: "truthy body_url" "parseURL env (the body_url) = Some pu"
       "protocol pu = ''http:'' \<or> protocol pu = ''https:''" by blast
  from apiCheck_valid [OF v] assms obtain c1 c2 c3 c4 where
    cs: "categories r = [c1, c2, c3, c4]" and
    wf: "wellFormed c1" "wellFormed c2" "wellFormed c3" "wellFormed c4" and
    ov: "overallScore r = summarizeOverall (categories r)"
    by (auto simp add: categoriesOf4 categoryOf_Fulfilled checkTLS_wellFormed
        checkHeaders_wellFormed checkWhois_wellFormed wellFormed_settle)
  have t: "total (overallScore r) = score c1 + score c2 + score c3 + score c4"
    using summarizeOverall_four [OF wf] ov cs by simp
  show ?thesis
    using cs wf t by (simp add: wellFormed_def)
qed

theorem apiCheck_total_is_sum_witness:
  "\<exists>r. apiCheck exampleEnv (Some ''https://www.example.com/'') = Ok r
     \<and> length (categories r) = 4
     \<and> sum_list (map maxScore (categories r)) = 100
     \<and> total (overallScore r) = sum_list (map score (categories r))
     \<and> 0 \<le> total (overallScore r) \<and> total (overallScore r) \<le> 100"
proof -
  from apiCheck_valid [OF example_valid(1) example_valid(2) example_valid(4)]
  obtain r where r: "apiCheck exampleEnv (Some ''https://www.example.com/'') = Ok r" by blast
  from apiCheck_total_is_sum [OF r] r show ?thesis by blast
qed

section \<open>Properties of the TLS evaluator\<close>

text \<open>
  C9. For a URL whose scheme is not https the TLS evaluator opens no TLS connection (its
  list of connections is empty and its result does not depend on \<open>tlsConnect\<close>) and
  returns score 0 with the warning that the site does not use HTTPS and the scheme,
  without the colon, in the details.
\<close>

theorem checkTLS_not_https:
  assumes "parseURL env targetUrl = Some parsedUrl" and "protocol parsedUrl \<noteq> ''https:''"
  shows "fst (checkTLS env targetUrl) = []
     \<and> score (snd (checkTLS env targetUrl)) = 0
     \<and> passed (snd (checkTLS env targetUrl)) = False
     \<and> warnings (snd (checkTLS env targetUrl)) =
         [''Site does not use HTTPS; TLS certificate was not evaluated.'']
     \<and> details (snd (checkTLS env targetUrl)) =
         [(''protocol'', DStr (remove1 CHR '':'' (protocol parsedUrl)))]
     \<and> checkTLS (env\<lparr>tlsConnect := connect\<rparr>) targetUrl = checkTLS env targetUrl"
  using assms by (simp add: checkTLS_def tls_finalizeResult_sel Math_round_0)

theorem checkTLS_not_https_witness:
  "parseURL exampleEnv ''http://www.example.com/'' = Some exampleHttpUrl
   \<and> protocol exampleHttpUrl \<noteq> ''https:''
   \<and> fst (checkTLS exampleEnv ''http://www.example.com/'') = []
   \<and> score (snd (checkTLS exampleEnv ''http://www.example.com/'')) = 0
   \<and> details (snd (checkTLS exampleEnv ''http://www.example.com/'')) = [(''protocol'', DStr ''http'')]"
proof -
  have p: "parseURL exampleEnv ''http://www.example.com/'' = Some exampleHttpUrl"
    by (simp add: exampleEnv_def)
  have q: "protocol exampleHttpUrl \<noteq> ''https:''"
    by (simp add: exampleHttpUrl_def)
  have r: "remove1 CHR '':'' (protocol exampleHttpUrl) = ''http''"
    by (simp add: exampleHttpUrl_def)
  from checkTLS_not_https [OF p q] p q r show ?thesis by simp
qed

lemma fst_protocolStep:
  "fst (protocolStep proto st) = fst st - (if insecureProtocol proto then 10 else 0)"
  by (cases st) (simp add: protocolStep_def insecureProtocol_def)

lemma fst_issuerStep:
  "fst (issuerStep cert st) = fst st - (if issuerIncomplete cert then 3 else 0)"
  by (cases st) (simp add: issuerStep_def issuerIncomplete_def Let_def)

lemma fst_subjectStep: "fst (subjectStep cert st) = fst st"
  by (cases st) (simp add: subjectStep_def Let_def)

lemma fst_validFromStep: "fst (validFromStep toDate cert st) = fst st"
  by (cases st) (simp add: validFromStep_def split: jsdate.splits)

lemma fst_validToStep:
  "fst (validToStep toDate nowMs cert st) =
     (case certExpiry toDate nowMs cert of
        ExpiresIn d \<Rightarrow> if d < 0 then 0 else fst st - bracketPenalty d
      | ExpiryUnparsable \<Rightarrow> fst st - 4
      | ExpiryMissing \<Rightarrow> fst st - 6)"
  by (cases st) (simp add: validToStep_def certExpiry_def bracketPenalty_def Let_def split: jsdate.splits)

lemma fst_sanStep:
  "fst (sanStep host cert st) = fst st - (if sanMismatch host cert then 5 else 0)"
  by (cases st) (simp add: sanStep_def sanMismatch_def Let_def)

lemma expired_protocolStep:
  "''Certificate is expired.'' \<in> set (fst (snd (protocolStep proto st))) \<longleftrightarrow>
   ''Certificate is expired.'' \<in> set (fst (snd st))"
  by (cases st) (simp add: protocolStep_def)

lemma expired_issuerStep:
  "''Certificate is expired.'' \<in> set (fst (snd (issuerStep cert st))) \<longleftrightarrow>
   ''Certificate is expired.'' \<in> set (fst (snd st))"
  by (cases st) (simp add: issuerStep_def Let_def)

lemma expired_subjectStep:
  "''Certificate is expired.'' \<in> set (fst (snd (subjectStep cert st))) \<longleftrightarrow>
   ''Certificate is expired.'' \<in> set (fst (snd st))"
  by (cases st) (simp add: subjectStep_def Let_def)

lemma expired_validFromStep:
  "''Certificate is expired.'' \<in> set (fst (snd (validFromStep toDate cert st))) \<longleftrightarrow>
   ''Certificate is expired.'' \<in> set (fst (snd st))"
  by (cases st) (simp add: validFromStep_def split: jsdate.splits)

lemma expired_sanStep:
  "''Certificate is expired.'' \<in> set (fst (snd (sanStep host cert st))) \<longleftrightarrow>
   ''Certificate is expired.'' \<in> set (fst (snd st))"
  by (cases st) (simp add: sanStep_def Let_def)

lemma expired_validToStep:
  "''Certificate is expired.'' \<in> set (fst (snd (validToStep toDate nowMs cert st))) \<longleftrightarrow>
   ''Certificate is expired.'' \<in> set (fst (snd st)) \<or>
   (case certExpiry toDate nowMs cert of ExpiresIn d \<Rightarrow> d < 0 | _ \<Rightarrow> False)"
  by (cases st) (simp add: validToStep_def certExpiry_def Let_def split: jsdate.splits)

lemma checkTLS_connected:
  assumes "parseURL env u = Some pu" and "protocol pu = ''https:''"
    and "tlsConnect env (hostname pu) (portOf pu) = Connected peer"
  shows "snd (checkTLS env u) =
     tls_finalizeResult
       (of_int (fst (connectionCallback (newDate env) (now env) (hostname pu) (portOf pu) peer)))
       (fst (snd (connectionCallback (newDate env) (now env) (hostname pu) (portOf pu) peer)))
       (snd (snd (connectionCallback (newDate env) (now env) (hostname pu) (portOf pu) peer)))"
  using assms by (simp add: checkTLS_def portOf_def Let_def split: prod.splits)

lemma callback_score:
  "fst (connectionCallback toDate nowMs host p (Peer (Some cert) proto)) =
     (case certExpiry toDate nowMs cert of
        ExpiresIn d \<Rightarrow>
          if d < 0 then 0
          else 25 - (if insecureProtocol proto then 10 else 0)
                  - (if issuerIncomplete cert then 3 else 0) - bracketPenalty d
      | ExpiryUnparsable \<Rightarrow>
          25 - (if insecureProtocol proto then 10 else 0)
             - (if issuerIncomplete cert then 3 else 0) - 4
      | ExpiryMissing \<Rightarrow>
          25 - (if insecureProtocol proto then 10 else 0)
             - (if issuerIncomplete cert then 3 else 0) - 6)
     - (if sanMismatch host cert then 5 else 0)"
  by (simp add: connectionCallback_def Let_def fst_sanStep fst_validToStep fst_validFromStep
      fst_subjectStep fst_issuerStep fst_protocolStep tls_MAX_SCORE_def split: expiry.splits)

lemma callback_expired_warning:
  "''Certificate is expired.'' \<in>
     set (fst (snd (connectionCallback toDate nowMs host p (Peer (Some cert) proto)))) \<longleftrightarrow>
   (case certExpiry toDate nowMs cert of ExpiresIn d \<Rightarrow> d < 0 | _ \<Rightarrow> False)"
  by (simp add: connectionCallback_def Let_def expired_sanStep expired_validToStep
      expired_validFromStep expired_subjectStep expired_issuerStep expired_protocolStep)

lemma bracketPenalty_bounds: "0 \<le> bracketPenalty d"
  by (simp add: bracketPenalty_def)

text \<open>
  C6. When the handshake succeeds and a certificate is readable, the expiry decides as
  follows. A certificate already expired (negative days left) forces the final score to
  0 and adds the warning \<open>Certificate is expired.\<close> Otherwise exactly one bracket
  applies, the closest: 12 points within 7 days, 8 within 30, 3 within 90, none beyond;
  a date that cannot be parsed costs 4 and a missing one 6. The other penalties
  (protocol, issuer, alternative names) add to it, and the result is floored at 0.
\<close>

theorem checkTLS_expiry_penalty:
  assumes "parseURL env u = Some pu" and "protocol pu = ''https:''"
    and "tlsConnect env (hostname pu) (portOf pu) = Connected (Peer (Some cert) proto)"
  shows "(case certExpiry (newDate env) (now env) cert of
            ExpiresIn d \<Rightarrow>
              if d < 0
              then score (snd (checkTLS env u)) = 0
                   \<and> ''Certificate is expired.'' \<in> set (warnings (snd (checkTLS env u)))
              else score (snd (checkTLS env u)) =
                     max 0 (25 - bracketPenalty d - otherPenalties proto (hostname pu) cert)
                   \<and> ''Certificate is expired.'' \<notin> set (warnings (snd (checkTLS env u)))
          | ExpiryUnparsable \<Rightarrow>
              score (snd (checkTLS env u)) =
                max 0 (25 - 4 - otherPenalties proto (hostname pu) cert)
          | ExpiryMissing \<Rightarrow>
              score (snd (checkTLS env u)) =
                max 0 (25 - 6 - otherPenalties proto (hostname pu) cert))
     \<and> bracketPenalty 0 = 12 \<and> bracketPenalty 7 = 12 \<and> bracketPenalty 8 = 8
     \<and> bracketPenalty 30 = 8 \<and> bracketPenalty 31 = 3 \<and> bracketPenalty 90 = 3
     \<and> bracketPenalty 91 = 0"
proof -
  let ?st = "connectionCallback (newDate env) (now env) (hostname pu) (portOf pu)
               (Peer (Some cert) proto)"
  note eq = checkTLS_connected [OF assms]
  have sc: "score (snd (checkTLS env u)) = max 0 (min 25 (fst ?st))"
    unfolding eq finalizeResult_int ..
  have ws: "warnings (snd (checkTLS env u)) = fst (snd ?st)"
    unfolding eq by (simp add: tls_finalizeResult_sel)
  note raw = callback_score [of "newDate env" "now env" "hostname pu" "portOf pu" cert proto]
  note ex = callback_expired_warning [of "newDate env" "now env" "hostname pu" "portOf pu" cert proto]
  have main: "case certExpiry (newDate env) (now env) cert of
            ExpiresIn d \<Rightarrow>
              if d < 0
              then score (snd (checkTLS env u)) = 0
                   \<and> ''Certificate is expired.'' \<in> set (warnings (snd (checkTLS env u)))
              else score (snd (checkTLS env u)) =
                     max 0 (25 - bracketPenalty d - otherPenalties proto (hostname pu) cert)
                   \<and> ''Certificate is expired.'' \<notin> set (warnings (snd (checkTLS env u)))
          | ExpiryUnparsable \<Rightarrow>
              score (snd (checkTLS env u)) =
                max 0 (25 - 4 - otherPenalties proto (hostname pu) cert)
          | ExpiryMissing \<Rightarrow>
              score (snd (checkTLS env u)) =
                max 0 (25 - 6 - otherPenalties proto (hostname pu) cert)"
  proof (cases "certExpiry (newDate env) (now env) cert")
    case ExpiryMissing
    then show ?thesis
      unfolding sc raw by (simp add: otherPenalties_def)
  next
    case ExpiryUnparsable
    then show ?thesis
      unfolding sc raw by (simp add: otherPenalties_def)
  next
    case (ExpiresIn d)
    show ?thesis
    proof (cases "d < 0")
      case True
      with ExpiresIn show ?thesis
        unfolding sc ws ex raw by simp
    next
      case False
      with ExpiresIn bracketPenalty_bounds [of d] show ?thesis
        unfolding sc ws ex raw by (simp add: otherPenalties_def)
    qed
  qed
  have br: "bracketPenalty 0 = 12 \<and> bracketPenalty 7 = 12 \<and> bracketPenalty 8 = 8
     \<and> bracketPenalty 30 = 8 \<and> bracketPenalty 31 = 3 \<and> bracketPenalty 90 = 3
     \<and> bracketPenalty 91 = 0"
    by (simp add: bracketPenalty_def)
  from main br show ?thesis by (rule conjI)
qed

lemma example_other_penalties:
  "otherPenalties (Some ''TLSv1.3'') ''www.example.com'' exampleCertificate = 0"
  by (simp add: otherPenalties_def insecureProtocol_def issuerIncomplete_def sanMismatch_def
      exampleCertificate_def formatName_def Let_def toUpperCase_def startsWith_def sanEntries_def
      stripDNS_def trim_def isSpace_def toLowerCase_def)

theorem checkTLS_expiry_penalty_witness:
  "parseURL expiredEnv ''https://www.example.com/'' = Some exampleUrl
   \<and> protocol exampleUrl = ''https:''
   \<and> tlsConnect expiredEnv (hostname exampleUrl) (portOf exampleUrl) =
        Connected (Peer (Some expiredCertificate) (Some ''TLSv1.3''))
   \<and> certExpiry (newDate expiredEnv) (now expiredEnv) expiredCertificate = ExpiresIn (- 2192)
   \<and> score (snd (checkTLS expiredEnv ''https://www.example.com/'')) = 0
   \<and> ''Certificate is expired.'' \<in> set (warnings (snd (checkTLS expiredEnv ''https://www.example.com/'')))
   \<and> tlsConnect exampleEnv (hostname exampleUrl) (portOf exampleUrl) =
        Connected (Peer (Some exampleCertificate) (Some ''TLSv1.3''))
   \<and> certExpiry (newDate exampleEnv) (now exampleEnv) exampleCertificate = ExpiresIn 1461
   \<and> score (snd (checkTLS exampleEnv ''https://www.example.com/'')) = 25"
proof -
  have p: "parseURL expiredEnv ''https://www.example.com/'' = Some exampleUrl"
      "parseURL exampleEnv ''https://www.example.com/'' = Some exampleUrl"
    by (simp_all add: expiredEnv_def exampleEnv_def)
  have q: "protocol exampleUrl = ''https:''" by (simp add: exampleUrl_def)
  have c: "tlsConnect expiredEnv (hostname exampleUrl) (portOf exampleUrl) =
        Connected (Peer (Some expiredCertificate) (Some ''TLSv1.3''))"
      "tlsConnect exampleEnv (hostname exampleUrl) (portOf exampleUrl) =
        Connected (Peer (Some exampleCertificate) (Some ''TLSv1.3''))"
    by (simp_all add: expiredEnv_def exampleEnv_def)
  have e: "certExpiry (newDate expiredEnv) (now expiredEnv) expiredCertificate = ExpiresIn (- 2192)"
    by (simp add: certExpiry_def expiredEnv_def exampleEnv_def expiredCertificate_def exampleDates_def)
  have e': "certExpiry (newDate exampleEnv) (now exampleEnv) exampleCertificate = ExpiresIn 1461"
    by (simp add: certExpiry_def exampleEnv_def exampleCertificate_def exampleDates_def)
  have h: "hostname exampleUrl = ''www.example.com''" by (simp add: exampleUrl_def)
  from checkTLS_expiry_penalty [OF p(1) q c(1)]
  have r: "score (snd (checkTLS expiredEnv ''https://www.example.com/'')) = 0
   \<and> ''Certificate is expired.'' \<in> set (warnings (snd (checkTLS expiredEnv ''https://www.example.com/'')))"
    unfolding e by simp
  from checkTLS_expiry_penalty [OF p(2) q c(2)]
  have r': "score (snd (checkTLS exampleEnv ''https://www.example.com/'')) = 25"
    unfolding e' h example_other_penalties by (simp add: bracketPenalty_def)
  from p(1) q c e e' r r' show ?thesis by (intro conjI) simp_all
qed

section \<open>Properties of the header evaluator\<close>

lemma header_fold:
  "fold (\<lambda>c (ws, sc). if failing c then (ws @ [warning c], sc - weight c) else (ws, sc)) cs (ws0, sc0)
   = (ws0 @ map warning (filter failing cs), sc0 - sum_list (map weight (filter failing cs)))"
  by (induction cs arbitrary: ws0 sc0) simp_all

lemma createHeaderChecks_shape:
  "map check_key (createHeaderChecks hs) = rubricKeys"
  "map check_label (createHeaderChecks hs) = rubricLabels"
  "map weight (createHeaderChecks hs) = [5, 5, 4, 4, 3, 4]"
  "length (createHeaderChecks hs) = 6"
  by (simp_all add: createHeaderChecks_def Let_def rubricKeys_def rubricLabels_def)

lemma sum_filter_bounds:
  "\<forall>w \<in> set (map weight cs). 0 \<le> w \<Longrightarrow>
     0 \<le> sum_list (map weight (filter P cs)) \<and>
     sum_list (map weight (filter P cs)) \<le> sum_list (map weight cs)"
  by (induction cs) auto

lemma failing_weights_bounds:
  "0 \<le> sum_list (map weight (filter failing (createHeaderChecks hs)))"
  "sum_list (map weight (filter failing (createHeaderChecks hs))) \<le> 25"
  using sum_filter_bounds [of "createHeaderChecks hs" failing]
  by (simp_all add: createHeaderChecks_shape)

lemma checkHeaders_obtained:
  assumes "obtainResponse refetch ctx = (Some resp, err)"
  shows "checkHeaders refetch u ctx =
     headers_finalizeResult
       (of_int (25 - sum_list (map weight (filter failing (createHeaderChecks (extractHeaders (Some resp)))))))
       (map warning (filter failing (createHeaderChecks (extractHeaders (Some resp)))))
       [(''statusCode'', DNum (status resp)),
        (''finalUrl'', DStr (firstTruthy (responseUrl resp) (configUrl resp) u)),
        (''presentHeaders'', DObj (map (\<lambda>(k, v). (k, the (normalizeValue (Some v)))) (extractHeaders (Some resp)))),
        (''missing'', DList (map check_label (filter failing (createHeaderChecks (extractHeaders (Some resp))))))]"
  using assms by (simp add: checkHeaders_def Let_def header_fold headers_MAX_SCORE_def)

lemma extract_example:
  "extractHeaders (Some exampleResponse) =
     [(''strict-transport-security'', HStr ''max-age=31536000; includeSubDomains''),
      (''content-security-policy'', HStr ''default-src https:''),
      (''x-frame-options'', HStr ''DENY''),
      (''referrer-policy'', HStr ''strict-origin-when-cross-origin''),
      (''permissions-policy'', HStr ''geolocation=()''),
      (''x-content-type-options'', HStr ''nosniff''),
      (''set-cookie'', HArr [''__Host-session=1; Secure; HttpOnly; Path=/; SameSite=Strict''])]"
  by (simp add: extractHeaders_def exampleResponse_def exampleHeaders_def toLowerCase_def)

lemma extract_bare:
  "extractHeaders (Some bareResponse) = [(''content-type'', HStr ''text/html'')]"
  by (simp add: extractHeaders_def bareResponse_def toLowerCase_def)

lemma extract_downgrade:
  "extractHeaders (Some downgradeResponse) =
     [(''referrer-policy'', HStr ''no-referrer-when-downgrade'')]"
  by (simp add: extractHeaders_def downgradeResponse_def toLowerCase_def)

lemma obtain_refetched:
  "obtainResponse (Responded r) noContext = (Some r, None)"
  by (simp add: obtainResponse_def noContext_def)

section \<open>Properties of the Referrer-Policy check\<close>

lemma startsWith_iff: "startsWith s p \<longleftrightarrow> (\<exists>post. s = p @ post)"
proof
  assume "startsWith s p"
  then have "s = p @ drop (length p) s"
    unfolding startsWith_def by (metis append_take_drop_id)
  then show "\<exists>post. s = p @ post" ..
next
  assume "\<exists>post. s = p @ post"
  then show "startsWith s p" unfolding startsWith_def by auto
qed

lemma anySuffix_iff: "anySuffix P s \<longleftrightarrow> (\<exists>pre t. s = pre @ t \<and> P t)"
proof (induction s)
  case Nil
  then show ?case by simp
next
  case (Cons c cs)
  show ?case
  proof
    assume "anySuffix P (c # cs)"
    then consider "P (c # cs)" | "anySuffix P cs" by auto
    then show "\<exists>pre t. c # cs = pre @ t \<and> P t"
    proof cases
      case 1
      then have "c # cs = [] @ (c # cs) \<and> P (c # cs)" by simp
      then show ?thesis by blast
    next
      case 2
      with Cons.IH obtain pre t where "cs = pre @ t" "P t" by blast
      then have "c # cs = (c # pre) @ t \<and> P t" by simp
      then show ?thesis by blast
    qed
  next
    assume "\<exists>pre t. c # cs = pre @ t \<and> P t"
    then obtain pre t where e: "c # cs = pre @ t" and p: "P t" by blast
    show "anySuffix P (c # cs)"
    proof (cases pre)
      case Nil
      with e p have "P (c # cs)" by simp
      then show ?thesis by simp
    next
      case (Cons a pre')
      with e have "cs = pre' @ t" by simp
      with p Cons.IH show ?thesis by auto
    qed
  qed
qed

lemma testLiteralI_iff: "testLiteralI lit s \<longleftrightarrow> containsI s lit"
proof
  assume "testLiteralI lit s"
  then obtain pre t post where "s = pre @ t" "toLowerCase t = lit @ post"
    unfolding testLiteralI_def anySuffix_iff startsWith_iff by blast
  then have "toLowerCase s = toLowerCase pre @ lit @ post"
    by (simp add: toLowerCase_def)
  then show "containsI s lit" unfolding containsI_def by blast
next
  assume "containsI s lit"
  then obtain before after where eq: "map toLowerChar s = before @ (lit @ after)"
    unfolding containsI_def toLowerCase_def by auto
  let ?n = "length before"
  have "map toLowerChar (drop ?n s) = drop ?n (map toLowerChar s)"
    by (simp add: drop_map)
  also have "\<dots> = lit @ after" unfolding eq by simp
  finally have t: "toLowerCase (drop ?n s) = lit @ after"
    by (simp add: toLowerCase_def)
  have "s = take ?n s @ drop ?n s \<and> (\<exists>post. toLowerCase (drop ?n s) = lit @ post)"
    using t by simp
  then have "\<exists>pre t. s = pre @ t \<and> (\<exists>post. toLowerCase t = lit @ post)"
    by (intro exI)
  then show "testLiteralI lit s"
    unfolding testLiteralI_def anySuffix_iff startsWith_iff .
qed

lemma containsI_longer:
  "containsI v (lit @ rest) \<Longrightarrow> containsI v lit"
proof -
  assume "containsI v (lit @ rest)"
  then obtain before after where "toLowerCase v = before @ (lit @ rest) @ after"
    unfolding containsI_def by blast
  then have "toLowerCase v = before @ lit @ (rest @ after)" by simp
  then show "containsI v lit" unfolding containsI_def by blast
qed

lemma re_referrer_Nil: "\<not> re_referrer []"
  by (simp add: re_referrer_def testLiteralI_def startsWith_def toLowerCase_def)

lemma trim_Nil: "trim [] = []"
  by (simp add: trim_def)

lemma re_referrer_iff:
  "re_referrer v \<longleftrightarrow> containsI v ''no-referrer'' \<or> containsI v ''strict-origin''"
proof -
  have imp: "containsI v ''strict-origin-when-cross-origin'' \<Longrightarrow> containsI v ''strict-origin''"
    using containsI_longer [of v "''strict-origin''" "''-when-cross-origin''"] by simp
  have absorb: "(C \<Longrightarrow> B) \<Longrightarrow> (A \<or> B \<or> C) = (A \<or> B)" for A B C :: bool
    by blast
  show ?thesis
    unfolding re_referrer_def testLiteralI_iff by (rule absorb) (rule imp)
qed

lemma referrer_check_nth:
  "createHeaderChecks hs ! 3 =
     \<lparr>check_key = ''referrer-policy'', check_label = ''Referrer-Policy'', weight = 4,
      present = headerPresent (map_of hs ''referrer-policy''),
      valid = (truthy (normalizeValue (map_of hs ''referrer-policy'')) \<and>
               re_referrer (the (normalizeValue (map_of hs ''referrer-policy'')))),
      warning = ''Missing Referrer-Policy header.''\<rparr>"
  by (simp add: createHeaderChecks_def Let_def)

lemma referrer_passes:
  "\<not> failing (createHeaderChecks hs ! 3) \<longleftrightarrow>
     (\<exists>v. normalizeValue (map_of hs ''referrer-policy'') = Some v \<and> re_referrer v)"
proof (cases "map_of hs ''referrer-policy''")
  case None
  then show ?thesis by (simp add: referrer_check_nth failing_def)
next
  case (Some h)
  show ?thesis
  proof (cases h)
    case (HStr v0)
    have "re_referrer (trim v0) \<Longrightarrow> v0 \<noteq> [] \<and> trim v0 \<noteq> []"
      by (auto simp add: trim_Nil re_referrer_Nil)
    with Some HStr show ?thesis by (auto simp add: referrer_check_nth failing_def)
  next
    case (HArr es)
    have "re_referrer (join '', '' (map trim es)) \<Longrightarrow> join '', '' (map trim es) \<noteq> []"
      by (auto simp add: re_referrer_Nil)
    with Some HArr show ?thesis by (auto simp add: referrer_check_nth failing_def)
  qed
qed

lemma sum_filter_split_nth:
  assumes "i < length cs"
  shows "sum_list (map weight (filter P cs)) =
     sum_list (map weight (filter P (take i cs @ drop (Suc i) cs)))
       + (if P (cs ! i) then weight (cs ! i) else 0)"
proof -
  have e: "cs = take i cs @ cs ! i # drop (Suc i) cs"
    using assms by (rule id_take_nth_drop)
  have "filter P cs = filter P (take i cs @ cs ! i # drop (Suc i) cs)"
    by (rule arg_cong [OF e])
  then show ?thesis by simp
qed

lemma warning_filter_split_nth:
  assumes "i < length cs"
  shows "w \<in> set (map warning (filter P cs)) \<longleftrightarrow>
     w \<in> set (map warning (filter P (take i cs @ drop (Suc i) cs)))
       \<or> (P (cs ! i) \<and> warning (cs ! i) = w)"
proof -
  have e: "cs = take i cs @ cs ! i # drop (Suc i) cs"
    using assms by (rule id_take_nth_drop)
  have "filter P cs = filter P (take i cs @ cs ! i # drop (Suc i) cs)"
    by (rule arg_cong [OF e])
  then show ?thesis by auto
qed

lemma createHeaderChecks_warnings:
  "map warning (createHeaderChecks hs) =
     [''Missing Strict-Transport-Security header (HSTS).'',
      ''Missing Content-Security-Policy header.'',
      ''Missing X-Frame-Options header or frame-ancestors directive.'',
      ''Missing Referrer-Policy header.'',
      ''Missing Permissions-Policy header.'',
      ''Missing X-Content-Type-Options header (nosniff).'']"
  by (simp add: createHeaderChecks_def Let_def)

lemma other_warnings:
  "''Missing Referrer-Policy header.'' \<notin>
     set (map warning (filter P (take 3 (createHeaderChecks hs) @ drop 4 (createHeaderChecks hs))))"
proof -
  have "map warning (take 3 (createHeaderChecks hs) @ drop 4 (createHeaderChecks hs)) =
      take 3 (map warning (createHeaderChecks hs)) @ drop 4 (map warning (createHeaderChecks hs))"
    by (simp add: take_map drop_map)
  then have "''Missing Referrer-Policy header.'' \<notin>
      set (map warning (take 3 (createHeaderChecks hs) @ drop 4 (createHeaderChecks hs)))"
    unfolding createHeaderChecks_warnings by simp
  then show ?thesis by auto
qed

lemma checks_weight_split:
  "sum_list (map weight (filter failing (createHeaderChecks hs))) =
     sum_list (map weight (filter failing
        (take 3 (createHeaderChecks hs) @ drop 4 (createHeaderChecks hs))))
       + (if failing (createHeaderChecks hs ! 3) then 4 else 0)"
proof -
  have len: "3 < length (createHeaderChecks hs)" by (simp add: createHeaderChecks_shape)
  show ?thesis
    using sum_filter_split_nth [OF len, of failing] by (simp add: referrer_check_nth)
qed

text \<open>
  C8 (amended). The fourth check of the rubric has key \<open>referrer-policy\<close>, weight 4 and
  the warning \<open>Missing Referrer-Policy header.\<close>. It passes exactly when the header is
  present and its normalised value contains, without regard to case, \<open>no-referrer\<close> or
  \<open>strict-origin\<close> somewhere (the pattern is not anchored). When it fails, and only
  then, the warning is among the result's warnings and 4 points are taken off the score.
\<close>

theorem referrer_check_passes_iff:
  "check_key (createHeaderChecks hs ! 3) = ''referrer-policy''
   \<and> weight (createHeaderChecks hs ! 3) = 4
   \<and> warning (createHeaderChecks hs ! 3) = ''Missing Referrer-Policy header.''
   \<and> (\<not> failing (createHeaderChecks hs ! 3) \<longleftrightarrow>
        (\<exists>v. normalizeValue (map_of hs ''referrer-policy'') = Some v \<and>
             (containsI v ''no-referrer'' \<or> containsI v ''strict-origin'')))
   \<and> (obtainResponse refetch ctx = (Some resp, err) \<and> hs = extractHeaders (Some resp) \<longrightarrow>
        (''Missing Referrer-Policy header.'' \<in> set (warnings (checkHeaders refetch u ctx))
           \<longleftrightarrow> failing (createHeaderChecks hs ! 3))
        \<and> score (checkHeaders refetch u ctx) =
            25 - sum_list (map weight (filter failing
                   (take 3 (createHeaderChecks hs) @ drop 4 (createHeaderChecks hs))))
               - (if failing (createHeaderChecks hs ! 3) then 4 else 0))"
proof -
  let ?cs = "createHeaderChecks hs"
  have a: "check_key (?cs ! 3) = ''referrer-policy'' \<and> weight (?cs ! 3) = 4
      \<and> warning (?cs ! 3) = ''Missing Referrer-Policy header.''"
    by (simp add: referrer_check_nth)
  have b: "\<not> failing (?cs ! 3) \<longleftrightarrow>
        (\<exists>v. normalizeValue (map_of hs ''referrer-policy'') = Some v \<and>
             (containsI v ''no-referrer'' \<or> containsI v ''strict-origin''))"
    unfolding referrer_passes re_referrer_iff ..
  have len: "3 < length ?cs" by (simp add: createHeaderChecks_shape)
  have c: "(''Missing Referrer-Policy header.'' \<in> set (warnings (checkHeaders refetch u ctx))
           \<longleftrightarrow> failing (?cs ! 3))
        \<and> score (checkHeaders refetch u ctx) =
            25 - sum_list (map weight (filter failing (take 3 ?cs @ drop 4 ?cs)))
               - (if failing (?cs ! 3) then 4 else 0)"
    if h: "obtainResponse refetch ctx = (Some resp, err) \<and> hs = extractHeaders (Some resp)"
  proof -
    from h have o: "obtainResponse refetch ctx = (Some resp, err)"
      and hs: "extractHeaders (Some resp) = hs" by simp_all
    note eq = checkHeaders_obtained [OF o, of u, unfolded hs]
    have w: "warnings (checkHeaders refetch u ctx) = map warning (filter failing ?cs)"
      unfolding eq by (simp add: headers_finalizeResult_sel)
    have s: "score (checkHeaders refetch u ctx) = 25 - sum_list (map weight (filter failing ?cs))"
      using failing_weights_bounds [of hs] unfolding eq finalizeResult_int by simp
    note s' = checks_weight_split [of hs]
    have w': "''Missing Referrer-Policy header.'' \<in> set (map warning (filter failing ?cs))
        \<longleftrightarrow> failing (?cs ! 3)"
      using warning_filter_split_nth [OF len, of "''Missing Referrer-Policy header.''" failing]
        other_warnings [of failing hs] a by simp
    show ?thesis unfolding w s s' using w' by simp
  qed
  from a b c show ?thesis by blast
qed

lemma downgrade_passes:
  "\<not> failing (createHeaderChecks (extractHeaders (Some downgradeResponse)) ! 3)"
  unfolding extract_downgrade referrer_check_nth
  by (simp add: failing_def trim_def isSpace_def re_referrer_def testLiteralI_def startsWith_def
      toLowerCase_def)

lemma example_referrer_passes:
  "\<not> failing (createHeaderChecks (extractHeaders (Some exampleResponse)) ! 3)"
  unfolding extract_example referrer_check_nth
  by (simp add: failing_def trim_def isSpace_def re_referrer_def testLiteralI_def startsWith_def
      toLowerCase_def)

lemma bare_referrer_fails:
  "failing (createHeaderChecks (extractHeaders (Some bareResponse)) ! 3)"
  unfolding extract_bare referrer_check_nth
  by (simp add: failing_def)

lemma downgrade_checks:
  "filter failing (take 3 (createHeaderChecks (extractHeaders (Some downgradeResponse)))
      @ drop 4 (createHeaderChecks (extractHeaders (Some downgradeResponse)))) =
   take 3 (createHeaderChecks (extractHeaders (Some downgradeResponse)))
      @ drop 4 (createHeaderChecks (extractHeaders (Some downgradeResponse)))"
  unfolding extract_downgrade
  by (simp add: createHeaderChecks_def Let_def failing_def)

lemma take_drop_weights:
  "map weight (take 3 (createHeaderChecks hs) @ drop 4 (createHeaderChecks hs)) = [5, 5, 4, 3, 4]"
proof -
  have "map weight (take 3 (createHeaderChecks hs) @ drop 4 (createHeaderChecks hs)) =
      take 3 (map weight (createHeaderChecks hs)) @ drop 4 (map weight (createHeaderChecks hs))"
    by (simp add: take_map drop_map)
  then show ?thesis unfolding createHeaderChecks_shape by simp
qed

text \<open>
  C8 as stated fails: \<open>no-referrer-when-downgrade\<close> is none of the three policies of
  the claim, yet a response that sends it passes the check, gets no Referrer-Policy
  warning and keeps the 4 points (the other five checks fail: 25 - 21 = 4).
\<close>

theorem referrer_policy_downgrade_counterexample:
  "\<not> spec_referrer_matches ''no-referrer-when-downgrade''
   \<and> map_of (extractHeaders (Some downgradeResponse)) ''referrer-policy'' =
        Some (HStr ''no-referrer-when-downgrade'')
   \<and> \<not> failing (createHeaderChecks (extractHeaders (Some downgradeResponse)) ! 3)
   \<and> ''Missing Referrer-Policy header.'' \<notin>
        set (warnings (checkHeaders (Responded downgradeResponse) ''https://www.example.com/'' noContext))
   \<and> score (checkHeaders (Responded downgradeResponse) ''https://www.example.com/'' noContext) = 4"
proof -
  let ?hs = "extractHeaders (Some downgradeResponse)"
  let ?c = "checkHeaders (Responded downgradeResponse) ''https://www.example.com/'' noContext"
  have a: "\<not> spec_referrer_matches ''no-referrer-when-downgrade''"
    by (simp add: spec_referrer_matches_def trim_def isSpace_def toLowerCase_def)
  have b: "map_of ?hs ''referrer-policy'' = Some (HStr ''no-referrer-when-downgrade'')"
    by (simp add: extract_downgrade)
  note eq = checkHeaders_obtained [OF obtain_refetched, of downgradeResponse "''https://www.example.com/''"]
  have len: "3 < length (createHeaderChecks ?hs)" by (simp add: createHeaderChecks_shape)
  have w: "warnings ?c = map warning (filter failing (createHeaderChecks ?hs))"
    unfolding eq by (simp add: headers_finalizeResult_sel)
  have c: "''Missing Referrer-Policy header.'' \<notin> set (warnings ?c)"
    unfolding w
    using warning_filter_split_nth [OF len, of "''Missing Referrer-Policy header.''" failing]
      other_warnings [of failing ?hs] downgrade_passes by simp
  have "sum_list (map weight (filter failing (createHeaderChecks ?hs))) = 21"
    unfolding checks_weight_split downgrade_checks take_drop_weights
    using downgrade_passes by simp
  then have d: "score ?c = 4"
    unfolding eq finalizeResult_int by simp
  from a b downgrade_passes c d show ?thesis by simp
qed

theorem referrer_check_passes_iff_witness:
  "obtainResponse (Responded exampleResponse) noContext = (Some exampleResponse, None)
   \<and> \<not> failing (createHeaderChecks (extractHeaders (Some exampleResponse)) ! 3)
   \<and> (\<exists>v. normalizeValue (map_of (extractHeaders (Some exampleResponse)) ''referrer-policy'') = Some v
          \<and> (containsI v ''no-referrer'' \<or> containsI v ''strict-origin''))
   \<and> ''Missing Referrer-Policy header.'' \<notin>
        set (warnings (checkHeaders (Responded exampleResponse) ''https://www.example.com/'' noContext))
   \<and> obtainResponse (Responded bareResponse) noContext = (Some bareResponse, None)
   \<and> failing (createHeaderChecks (extractHeaders (Some bareResponse)) ! 3)
   \<and> ''Missing Referrer-Policy header.'' \<in>
        set (warnings (checkHeaders (Responded bareResponse) ''https://www.example.com/'' noContext))"
proof -
  note g = referrer_check_passes_iff [of "extractHeaders (Some exampleResponse)"
      "Responded exampleResponse" noContext exampleResponse None "''https://www.example.com/''"]
  note b = referrer_check_passes_iff [of "extractHeaders (Some bareResponse)"
      "Responded bareResponse" noContext bareResponse None "''https://www.example.com/''"]
  from g have g1: "\<not> failing (createHeaderChecks (extractHeaders (Some exampleResponse)) ! 3) \<longleftrightarrow>
        (\<exists>v. normalizeValue (map_of (extractHeaders (Some exampleResponse)) ''referrer-policy'') = Some v
          \<and> (containsI v ''no-referrer'' \<or> containsI v ''strict-origin''))"
    by (elim conjE)
  from g have g2: "obtainResponse (Responded exampleResponse) noContext = (Some exampleResponse, None)
        \<and> extractHeaders (Some exampleResponse) = extractHeaders (Some exampleResponse) \<longrightarrow>
        (''Missing Referrer-Policy header.'' \<in>
           set (warnings (checkHeaders (Responded exampleResponse) ''https://www.example.com/'' noContext))
           \<longleftrightarrow> failing (createHeaderChecks (extractHeaders (Some exampleResponse)) ! 3))
        \<and> score (checkHeaders (Responded exampleResponse) ''https://www.example.com/'' noContext) =
            25 - sum_list (map weight (filter failing
                   (take 3 (createHeaderChecks (extractHeaders (Some exampleResponse)))
                    @ drop 4 (createHeaderChecks (extractHeaders (Some exampleResponse))))))
               - (if failing (createHeaderChecks (extractHeaders (Some exampleResponse)) ! 3) then 4 else 0)"
    by (elim conjE)
  from b have b2: "obtainResponse (Responded bareResponse) noContext = (Some bareResponse, None)
        \<and> extractHeaders (Some bareResponse) = extractHeaders (Some bareResponse) \<longrightarrow>
        (''Missing Referrer-Policy header.'' \<in>
           set (warnings (checkHeaders (Responded bareResponse) ''https://www.example.com/'' noContext))
           \<longleftrightarrow> failing (createHeaderChecks (extractHeaders (Some bareResponse)) ! 3))
        \<and> score (checkHeaders (Responded bareResponse) ''https://www.example.com/'' noContext) =
            25 - sum_list (map weight (filter failing
                   (take 3 (createHeaderChecks (extractHeaders (Some bareResponse)))
                    @ drop 4 (createHeaderChecks (extractHeaders (Some bareResponse))))))
               - (if failing (createHeaderChecks (extractHeaders (Some bareResponse)) ! 3) then 4 else 0)"
    by (elim conjE)
  have p1: "\<exists>v. normalizeValue (map_of (extractHeaders (Some exampleResponse)) ''referrer-policy'') = Some v
          \<and> (containsI v ''no-referrer'' \<or> containsI v ''strict-origin'')"
    using g1 example_referrer_passes by (rule iffD1)
  have hg: "obtainResponse (Responded exampleResponse) noContext = (Some exampleResponse, None)
        \<and> extractHeaders (Some exampleResponse) = extractHeaders (Some exampleResponse)"
    by (simp add: obtain_refetched)
  have hb: "obtainResponse (Responded bareResponse) noContext = (Some bareResponse, None)
        \<and> extractHeaders (Some bareResponse) = extractHeaders (Some bareResponse)"
    by (simp add: obtain_refetched)
  from mp [OF g2 hg] example_referrer_passes
  have p2: "''Missing Referrer-Policy header.'' \<notin>
        set (warnings (checkHeaders (Responded exampleResponse) ''https://www.example.com/'' noContext))"
    by simp
  from mp [OF b2 hb] bare_referrer_fails
  have p3: "''Missing Referrer-Policy header.'' \<in>
        set (warnings (checkHeaders (Responded bareResponse) ''https://www.example.com/'' noContext))"
    by simp
  from p1 p2 p3 example_referrer_passes bare_referrer_fails obtain_refetched
  show ?thesis by (intro conjI) simp_all
qed

section \<open>Properties of the header evaluator: the score by header values\<close>

lemma lit_then_char_iff:
  assumes "length lit = n"
  shows "anySuffix (\<lambda>t. startsWith (toLowerCase t) lit \<and>
                       (case drop n t of [] \<Rightarrow> False | d # _ \<Rightarrow> Q d)) s
         \<longleftrightarrow> containsThenI s lit Q"
proof
  assume "anySuffix (\<lambda>t. startsWith (toLowerCase t) lit \<and>
                       (case drop n t of [] \<Rightarrow> False | d # _ \<Rightarrow> Q d)) s"
  then obtain pre t where s: "s = pre @ t"
    and st: "startsWith (toLowerCase t) lit"
    and dr: "(case drop n t of [] \<Rightarrow> False | d # _ \<Rightarrow> Q d)"
    unfolding anySuffix_iff by blast
  from dr obtain d after where da: "drop n t = d # after" and q: "Q d"
    by (cases "drop n t") auto
  have "take n (map toLowerChar t) = lit"
    using st assms unfolding startsWith_def toLowerCase_def by simp
  then have m: "toLowerCase (take n t) = lit"
    by (simp add: toLowerCase_def take_map)
  have "t = take n t @ drop n t" by simp
  then have "s = pre @ take n t @ d # after" unfolding s da by simp
  with m q show "containsThenI s lit Q" unfolding containsThenI_def by blast
next
  assume "containsThenI s lit Q"
  then obtain before m d after where s: "s = before @ m @ d # after"
    and m: "toLowerCase m = lit" and q: "Q d"
    unfolding containsThenI_def by blast
  from m assms have len: "length m = n" by (auto simp add: toLowerCase_def)
  have a: "startsWith (toLowerCase (m @ d # after)) lit"
    unfolding startsWith_def using m len assms by (simp add: toLowerCase_def)
  have b: "(case drop n (m @ d # after) of [] \<Rightarrow> False | d # _ \<Rightarrow> Q d)"
    using len q by simp
  have "s = before @ (m @ d # after) \<and>
        (startsWith (toLowerCase (m @ d # after)) lit \<and>
         (case drop n (m @ d # after) of [] \<Rightarrow> False | d # _ \<Rightarrow> Q d))"
    using s a b by simp
  then have "\<exists>pre t. s = pre @ t \<and> (startsWith (toLowerCase t) lit \<and>
         (case drop n t of [] \<Rightarrow> False | d # _ \<Rightarrow> Q d))"
    by (intro exI)
  then show "anySuffix (\<lambda>t. startsWith (toLowerCase t) lit \<and>
                       (case drop n t of [] \<Rightarrow> False | d # _ \<Rightarrow> Q d)) s"
    unfolding anySuffix_iff .
qed

lemma re_max_age_iff: "re_max_age v \<longleftrightarrow> containsThenI v ''max-age='' isDigit"
  unfolding re_max_age_def by (rule lit_then_char_iff) simp

lemma re_frame_ancestors_iff:
  "re_frame_ancestors v \<longleftrightarrow> containsThenI v ''frame-ancestors'' isSpace"
  unfolding re_frame_ancestors_def by (rule lit_then_char_iff) simp

lemma re_sameorigin_deny_iff:
  "re_sameorigin_deny v \<longleftrightarrow> containsI v ''sameorigin'' \<or> containsI v ''deny''"
  unfolding re_sameorigin_deny_def testLiteralI_iff ..

lemma containsThenI_nonempty: "containsThenI v lit Q \<Longrightarrow> v \<noteq> []"
  unfolding containsThenI_def by auto

lemma passes_by_value:
  assumes "\<And>v. R v \<Longrightarrow> v \<noteq> []"
  shows "headerPresent h \<and> truthy (normalizeValue h) \<and> R (the (normalizeValue h))
         \<longleftrightarrow> (\<exists>v. normalizeValue h = Some v \<and> R v)"
proof (cases h)
  case None
  then show ?thesis by simp
next
  case (Some x)
  show ?thesis
  proof (cases x)
    case (HStr v0)
    have "R (trim v0) \<Longrightarrow> v0 \<noteq> [] \<and> trim v0 \<noteq> []"
      using assms [of "trim v0"] by (auto simp add: trim_Nil)
    with Some HStr show ?thesis by auto
  next
    case (HArr es)
    have "R (join '', '' (map trim es)) \<Longrightarrow> join '', '' (map trim es) \<noteq> []"
      using assms by blast
    with Some HArr show ?thesis by auto
  qed
qed

lemma checks_nth:
  "createHeaderChecks hs ! 0 =
     \<lparr>check_key = ''strict-transport-security'', check_label = ''HSTS (Strict-Transport-Security)'',
      weight = 5,
      present = headerPresent (map_of hs ''strict-transport-security''),
      valid = (truthy (normalizeValue (map_of hs ''strict-transport-security'')) \<and>
               re_max_age (the (normalizeValue (map_of hs ''strict-transport-security'')))),
      warning = ''Missing Strict-Transport-Security header (HSTS).''\<rparr>"
  "createHeaderChecks hs ! 1 =
     \<lparr>check_key = ''content-security-policy'', check_label = ''Content-Security-Policy'',
      weight = 5,
      present = headerPresent (map_of hs ''content-security-policy''),
      valid = (truthy (normalizeValue (map_of hs ''content-security-policy'')) \<and>
               length (the (normalizeValue (map_of hs ''content-security-policy''))) > 0),
      warning = ''Missing Content-Security-Policy header.''\<rparr>"
  "createHeaderChecks hs ! 2 =
     \<lparr>check_key = ''x-frame-options'', check_label = ''Clickjacking protection'',
      weight = 4,
      present = (headerPresent (map_of hs ''x-frame-options'') \<or>
                 (truthy (normalizeValue (map_of hs ''content-security-policy'')) \<and>
                  re_frame_ancestors (the (normalizeValue (map_of hs ''content-security-policy''))))),
      valid = (if truthy (normalizeValue (map_of hs ''x-frame-options''))
               then re_sameorigin_deny (the (normalizeValue (map_of hs ''x-frame-options'')))
               else (truthy (normalizeValue (map_of hs ''content-security-policy'')) \<and>
                     re_frame_ancestors (the (normalizeValue (map_of hs ''content-security-policy''))))),
      warning = ''Missing X-Frame-Options header or frame-ancestors directive.''\<rparr>"
  "createHeaderChecks hs ! 4 =
     \<lparr>check_key = ''permissions-policy'', check_label = ''Permissions-Policy'',
      weight = 3,
      present = headerPresent (map_of hs ''permissions-policy''),
      valid = (truthy (normalizeValue (map_of hs ''permissions-policy'')) \<and>
               length (the (normalizeValue (map_of hs ''permissions-policy''))) > 0),
      warning = ''Missing Permissions-Policy header.''\<rparr>"
  "createHeaderChecks hs ! 5 =
     \<lparr>check_key = ''x-content-type-options'', check_label = ''X-Content-Type-Options'',
      weight = 4,
      present = headerPresent (map_of hs ''x-content-type-options''),
      valid = (truthy (normalizeValue (map_of hs ''x-content-type-options'')) \<and>
               toLowerCase (the (normalizeValue (map_of hs ''x-content-type-options''))) = ''nosniff''),
      warning = ''Missing X-Content-Type-Options header (nosniff).''\<rparr>"
  by (simp_all add: createHeaderChecks_def Let_def)


lemma hsts_check: "failing (createHeaderChecks hs ! 0) \<longleftrightarrow> \<not> hstsPasses hs"
proof -
  let ?h = "map_of hs ''strict-transport-security''"
  have "\<not> failing (createHeaderChecks hs ! 0) \<longleftrightarrow>
      headerPresent ?h \<and> truthy (normalizeValue ?h) \<and> re_max_age (the (normalizeValue ?h))"
    unfolding checks_nth failing_def by auto
  also have "\<dots> \<longleftrightarrow> (\<exists>v. normalizeValue ?h = Some v \<and> re_max_age v)"
    by (rule passes_by_value) (simp add: re_max_age_iff containsThenI_nonempty)
  also have "\<dots> \<longleftrightarrow> hstsPasses hs"
    unfolding hstsPasses_def re_max_age_iff ..
  finally show ?thesis by blast
qed

lemma csp_check: "failing (createHeaderChecks hs ! 1) \<longleftrightarrow> \<not> cspPasses hs"
proof -
  let ?h = "map_of hs ''content-security-policy''"
  have "\<not> failing (createHeaderChecks hs ! 1) \<longleftrightarrow>
      headerPresent ?h \<and> truthy (normalizeValue ?h) \<and> 0 < length (the (normalizeValue ?h))"
    unfolding checks_nth failing_def by auto
  also have "\<dots> \<longleftrightarrow> (\<exists>v. normalizeValue ?h = Some v \<and> 0 < length v)"
    by (rule passes_by_value) simp
  also have "\<dots> \<longleftrightarrow> cspPasses hs"
    unfolding cspPasses_def by simp
  finally show ?thesis by blast
qed

lemma permissions_check: "failing (createHeaderChecks hs ! 4) \<longleftrightarrow> \<not> permissionsPasses hs"
proof -
  let ?h = "map_of hs ''permissions-policy''"
  have "\<not> failing (createHeaderChecks hs ! 4) \<longleftrightarrow>
      headerPresent ?h \<and> truthy (normalizeValue ?h) \<and> 0 < length (the (normalizeValue ?h))"
    unfolding checks_nth failing_def by auto
  also have "\<dots> \<longleftrightarrow> (\<exists>v. normalizeValue ?h = Some v \<and> 0 < length v)"
    by (rule passes_by_value) simp
  also have "\<dots> \<longleftrightarrow> permissionsPasses hs"
    unfolding permissionsPasses_def by simp
  finally show ?thesis by blast
qed

lemma nosniff_check: "failing (createHeaderChecks hs ! 5) \<longleftrightarrow> \<not> nosniffPasses hs"
proof -
  let ?h = "map_of hs ''x-content-type-options''"
  have "\<not> failing (createHeaderChecks hs ! 5) \<longleftrightarrow>
      headerPresent ?h \<and> truthy (normalizeValue ?h) \<and>
      toLowerCase (the (normalizeValue ?h)) = ''nosniff''"
    unfolding checks_nth failing_def by auto
  also have "\<dots> \<longleftrightarrow> (\<exists>v. normalizeValue ?h = Some v \<and> toLowerCase v = ''nosniff'')"
    by (rule passes_by_value) (auto simp add: toLowerCase_def)
  also have "\<dots> \<longleftrightarrow> nosniffPasses hs"
    unfolding nosniffPasses_def ..
  finally show ?thesis by blast
qed

lemma referrer_check: "failing (createHeaderChecks hs ! 3) \<longleftrightarrow> \<not> referrerPasses hs"
  using referrer_passes [of hs] unfolding referrerPasses_def re_referrer_iff by blast

lemma frame_ancestors_declared:
  "truthy (normalizeValue h) \<and> re_frame_ancestors (the (normalizeValue h)) \<longleftrightarrow>
   (\<exists>v. normalizeValue h = Some v \<and> containsThenI v ''frame-ancestors'' isSpace)"
proof (cases "normalizeValue h")
  case None
  then show ?thesis by simp
next
  case (Some v)
  have "containsThenI v ''frame-ancestors'' isSpace \<Longrightarrow> v \<noteq> []"
    by (rule containsThenI_nonempty)
  with Some show ?thesis by (auto simp add: re_frame_ancestors_iff)
qed

lemma clickjacking_check: "failing (createHeaderChecks hs ! 2) \<longleftrightarrow> \<not> clickjackingPasses hs"
proof -
  let ?x = "map_of hs ''x-frame-options''"
  let ?FA = "frameAncestorsDeclared hs"
  have fa: "truthy (normalizeValue (map_of hs ''content-security-policy'')) \<and>
        re_frame_ancestors (the (normalizeValue (map_of hs ''content-security-policy''))) \<longleftrightarrow> ?FA"
    unfolding frameAncestorsDeclared_def by (rule frame_ancestors_declared)
  have f: "\<not> failing (createHeaderChecks hs ! 2) \<longleftrightarrow>
      (headerPresent ?x \<or> ?FA) \<and>
      (if truthy (normalizeValue ?x) then re_sameorigin_deny (the (normalizeValue ?x)) else ?FA)"
    unfolding checks_nth failing_def fa by auto
  show ?thesis
  proof (cases ?x)
    case None
    with f show ?thesis
      by (auto simp add: clickjackingPasses_def)
  next
    case (Some h)
    show ?thesis
    proof (cases h)
      case (HStr v0)
      have "trim v0 \<noteq> [] \<Longrightarrow> v0 \<noteq> []" by (auto simp add: trim_Nil)
      with Some HStr f show ?thesis
        by (auto simp add: clickjackingPasses_def re_sameorigin_deny_iff)
    next
      case (HArr es)
      with Some f show ?thesis
        by (auto simp add: clickjackingPasses_def re_sameorigin_deny_iff)
    qed
  qed
qed

lemma checks_list:
  "createHeaderChecks hs =
     [createHeaderChecks hs ! 0, createHeaderChecks hs ! 1, createHeaderChecks hs ! 2,
      createHeaderChecks hs ! 3, createHeaderChecks hs ! 4, createHeaderChecks hs ! 5]"
  by (simp add: createHeaderChecks_def Let_def)

lemma filter_six:
  "map f (filter P [a, b, c, d, e, g]) =
     (if P a then [f a] else []) @ (if P b then [f b] else []) @ (if P c then [f c] else []) @
     (if P d then [f d] else []) @ (if P e then [f e] else []) @ (if P g then [f g] else [])"
  by simp

lemma filtered_checks:
  "map f (filter failing (createHeaderChecks hs)) =
     (if hstsPasses hs then [] else [f (createHeaderChecks hs ! 0)]) @
     (if cspPasses hs then [] else [f (createHeaderChecks hs ! 1)]) @
     (if clickjackingPasses hs then [] else [f (createHeaderChecks hs ! 2)]) @
     (if referrerPasses hs then [] else [f (createHeaderChecks hs ! 3)]) @
     (if permissionsPasses hs then [] else [f (createHeaderChecks hs ! 4)]) @
     (if nosniffPasses hs then [] else [f (createHeaderChecks hs ! 5)])"
proof -
  have "map f (filter failing (createHeaderChecks hs)) =
      map f (filter failing
        [createHeaderChecks hs ! 0, createHeaderChecks hs ! 1, createHeaderChecks hs ! 2,
         createHeaderChecks hs ! 3, createHeaderChecks hs ! 4, createHeaderChecks hs ! 5])"
    by (rule arg_cong [OF checks_list])
  then show ?thesis
    unfolding filter_six hsts_check csp_check clickjacking_check referrer_check
      permissions_check nosniff_check
    by simp
qed

lemma failing_penalty:
  "sum_list (map weight (filter failing (createHeaderChecks hs))) = rubricPenalty hs"
  unfolding filtered_checks rubricPenalty_def checks_nth referrer_check_nth
  by simp

lemma failing_labels:
  "map check_label (filter failing (createHeaderChecks hs)) = rubricMissing hs"
  unfolding filtered_checks rubricMissing_def checks_nth referrer_check_nth
  by simp

lemma failing_warnings:
  "map warning (filter failing (createHeaderChecks hs)) = rubricWarnings hs"
  unfolding filtered_checks rubricWarnings_def checks_nth referrer_check_nth
  by simp


lemma none_present_fails:
  assumes "\<forall>k \<in> set rubricKeys. map_of hs k = None"
  shows "\<not> hstsPasses hs" "\<not> cspPasses hs" "\<not> clickjackingPasses hs" "\<not> referrerPasses hs"
    "\<not> permissionsPasses hs" "\<not> nosniffPasses hs"
  using assms
  by (simp_all add: rubricKeys_def hstsPasses_def cspPasses_def clickjackingPasses_def
      frameAncestorsDeclared_def referrerPasses_def permissionsPasses_def nosniffPasses_def)

text \<open>
  C5. When a response is obtained, the header score is 25 minus the weights of the checks
  that fail, floored at 0: 5 for Strict-Transport-Security (absent, or without
  \<open>max-age=\<close> and a digit), 5 for Content-Security-Policy (absent or empty), 4 for the
  clickjacking check (X-Frame-Options without \<open>sameorigin\<close> or \<open>deny\<close>, or, when that
  header is absent or empty, no \<open>frame-ancestors\<close> directive in the policy), 4 for
  Referrer-Policy, 3 for Permissions-Policy (absent or empty), 4 for
  X-Content-Type-Options (absent or not \<open>nosniff\<close>). The warnings and \<open>details.missing\<close>
  list exactly the failing checks, in the order of the rubric. With none of the six
  headers present the score is 0 and all six labels are missing; with all six correctly
  set the score is 25 and nothing is missing.
\<close>

theorem checkHeaders_score:
  assumes "obtainResponse refetch ctx = (Some resp, err)" and "hs = extractHeaders (Some resp)"
  shows "map check_key (createHeaderChecks hs) = rubricKeys
     \<and> map weight (createHeaderChecks hs) = [5, 5, 4, 4, 3, 4]
     \<and> score (checkHeaders refetch u ctx) =
         max 0 (25 - ((if hstsPasses hs then 0 else 5) + (if cspPasses hs then 0 else 5)
                    + (if clickjackingPasses hs then 0 else 4) + (if referrerPasses hs then 0 else 4)
                    + (if permissionsPasses hs then 0 else 3) + (if nosniffPasses hs then 0 else 4)))
     \<and> warnings (checkHeaders refetch u ctx) = rubricWarnings hs
     \<and> map_of (details (checkHeaders refetch u ctx)) ''missing'' =
         Some (DList ((if hstsPasses hs then [] else [''HSTS (Strict-Transport-Security)''])
                    @ (if cspPasses hs then [] else [''Content-Security-Policy''])
                    @ (if clickjackingPasses hs then [] else [''Clickjacking protection''])
                    @ (if referrerPasses hs then [] else [''Referrer-Policy''])
                    @ (if permissionsPasses hs then [] else [''Permissions-Policy''])
                    @ (if nosniffPasses hs then [] else [''X-Content-Type-Options''])))
     \<and> ((\<forall>k \<in> set rubricKeys. map_of hs k = None) \<longrightarrow>
          score (checkHeaders refetch u ctx) = 0 \<and>
          map_of (details (checkHeaders refetch u ctx)) ''missing'' = Some (DList rubricLabels))
     \<and> (hstsPasses hs \<and> cspPasses hs \<and> clickjackingPasses hs \<and> referrerPasses hs \<and>
         permissionsPasses hs \<and> nosniffPasses hs \<longrightarrow>
          score (checkHeaders refetch u ctx) = 25 \<and>
          map_of (details (checkHeaders refetch u ctx)) ''missing'' = Some (DList []))"
proof -
  let ?c = "checkHeaders refetch u ctx"
  from assms have o: "obtainResponse refetch ctx = (Some resp, err)"
    and hs: "extractHeaders (Some resp) = hs" by simp_all
  note eq = checkHeaders_obtained [OF o, of u, unfolded hs]
  have sc: "score ?c = max 0 (25 - rubricPenalty hs)"
    using failing_weights_bounds [of hs]
    unfolding eq finalizeResult_int failing_penalty by simp
  have ws: "warnings ?c = rubricWarnings hs"
    unfolding eq by (simp add: headers_finalizeResult_sel failing_warnings)
  have ms: "map_of (details ?c) ''missing'' = Some (DList (rubricMissing hs))"
    unfolding eq by (simp add: headers_finalizeResult_sel failing_labels)
  have none: "score ?c = 0 \<and> map_of (details ?c) ''missing'' = Some (DList rubricLabels)"
    if "\<forall>k \<in> set rubricKeys. map_of hs k = None"
    using none_present_fails [OF that]
    by (simp add: sc ms rubricPenalty_def rubricMissing_def rubricLabels_def)
  have good: "score ?c = 25 \<and> map_of (details ?c) ''missing'' = Some (DList [])"
    if "hstsPasses hs \<and> cspPasses hs \<and> clickjackingPasses hs \<and> referrerPasses hs \<and>
         permissionsPasses hs \<and> nosniffPasses hs"
    using that by (simp add: sc ms rubricPenalty_def rubricMissing_def)
  from sc ws ms none good show ?thesis
    unfolding rubricPenalty_def rubricMissing_def
    by (simp add: createHeaderChecks_shape)
qed

lemma passes_code:
  "hstsPasses hs = (\<not> failing (createHeaderChecks hs ! 0))"
  "cspPasses hs = (\<not> failing (createHeaderChecks hs ! 1))"
  "clickjackingPasses hs = (\<not> failing (createHeaderChecks hs ! 2))"
  "referrerPasses hs = (\<not> failing (createHeaderChecks hs ! 3))"
  "permissionsPasses hs = (\<not> failing (createHeaderChecks hs ! 4))"
  "nosniffPasses hs = (\<not> failing (createHeaderChecks hs ! 5))"
  by (simp_all only: hsts_check csp_check clickjacking_check referrer_check permissions_check
      nosniff_check not_not)

lemma extract_junk:
  "extractHeaders (Some junkResponse) =
     [(''strict-transport-security'', HStr ''includeSubDomains''),
      (''content-security-policy'', HStr ''  ''),
      (''x-frame-options'', HStr ''ALLOWALL''),
      (''referrer-policy'', HStr ''no-referrer''),
      (''permissions-policy'', HStr '' ''),
      (''x-content-type-options'', HStr ''sniff'')]"
  by (simp add: extractHeaders_def junkResponse_def toLowerCase_def)

lemma example_passes:
  "hstsPasses (extractHeaders (Some exampleResponse))"
  "cspPasses (extractHeaders (Some exampleResponse))"
  "clickjackingPasses (extractHeaders (Some exampleResponse))"
  "referrerPasses (extractHeaders (Some exampleResponse))"
  "permissionsPasses (extractHeaders (Some exampleResponse))"
  "nosniffPasses (extractHeaders (Some exampleResponse))"
  unfolding passes_code checks_nth referrer_check_nth failing_def extract_example
  by (simp_all add: trim_def isSpace_def re_max_age_def re_frame_ancestors_def
      re_sameorigin_deny_def re_referrer_def testLiteralI_def startsWith_def toLowerCase_def
      isDigit_def)

lemma junk_passes:
  "\<not> hstsPasses (extractHeaders (Some junkResponse))"
  "\<not> cspPasses (extractHeaders (Some junkResponse))"
  "\<not> clickjackingPasses (extractHeaders (Some junkResponse))"
  "referrerPasses (extractHeaders (Some junkResponse))"
  "\<not> permissionsPasses (extractHeaders (Some junkResponse))"
  "\<not> nosniffPasses (extractHeaders (Some junkResponse))"
  unfolding passes_code checks_nth referrer_check_nth failing_def extract_junk
  by (simp_all add: trim_def isSpace_def re_max_age_def re_frame_ancestors_def
      re_sameorigin_deny_def re_referrer_def testLiteralI_def startsWith_def toLowerCase_def
      isDigit_def)


theorem checkHeaders_score_witness:
  "obtainResponse (Responded exampleResponse) noContext = (Some exampleResponse, None)
   \<and> hstsPasses (extractHeaders (Some exampleResponse))
   \<and> cspPasses (extractHeaders (Some exampleResponse))
   \<and> clickjackingPasses (extractHeaders (Some exampleResponse))
   \<and> referrerPasses (extractHeaders (Some exampleResponse))
   \<and> permissionsPasses (extractHeaders (Some exampleResponse))
   \<and> nosniffPasses (extractHeaders (Some exampleResponse))
   \<and> score (checkHeaders (Responded exampleResponse) ''https://www.example.com/'' noContext) = 25
   \<and> map_of (details (checkHeaders (Responded exampleResponse) ''https://www.example.com/'' noContext))
        ''missing'' = Some (DList [])
   \<and> obtainResponse (Responded bareResponse) noContext = (Some bareResponse, None)
   \<and> list_all (\<lambda>k. map_of (extractHeaders (Some bareResponse)) k = None) rubricKeys
   \<and> score (checkHeaders (Responded bareResponse) ''https://www.example.com/'' noContext) = 0
   \<and> map_of (details (checkHeaders (Responded bareResponse) ''https://www.example.com/'' noContext))
        ''missing'' = Some (DList rubricLabels)
   \<and> obtainResponse (Responded junkResponse) noContext = (Some junkResponse, None)
   \<and> \<not> hstsPasses (extractHeaders (Some junkResponse))
   \<and> \<not> cspPasses (extractHeaders (Some junkResponse))
   \<and> \<not> clickjackingPasses (extractHeaders (Some junkResponse))
   \<and> referrerPasses (extractHeaders (Some junkResponse))
   \<and> \<not> permissionsPasses (extractHeaders (Some junkResponse))
   \<and> \<not> nosniffPasses (extractHeaders (Some junkResponse))
   \<and> score (checkHeaders (Responded junkResponse) ''https://www.example.com/'' noContext) = 4
   \<and> map_of (details (checkHeaders (Responded junkResponse) ''https://www.example.com/'' noContext))
        ''missing'' =
        Some (DList [''HSTS (Strict-Transport-Security)'', ''Content-Security-Policy'',
                     ''Clickjacking protection'', ''Permissions-Policy'',
                     ''X-Content-Type-Options''])"
proof -
  let ?u = "''https://www.example.com/''"
  have bare: "list_all (\<lambda>k. map_of (extractHeaders (Some bareResponse)) k = None) rubricKeys"
    by (simp add: extract_bare rubricKeys_def)
  then have bare': "\<forall>k \<in> set rubricKeys. map_of (extractHeaders (Some bareResponse)) k = None"
    by (simp add: list_all_iff)
  note g = checkHeaders_score [OF obtain_refetched refl, of exampleResponse ?u]
  note b = checkHeaders_score [OF obtain_refetched refl, of bareResponse ?u]
  note j = checkHeaders_score [OF obtain_refetched refl, of junkResponse ?u]
  have allg: "hstsPasses (extractHeaders (Some exampleResponse))
      \<and> cspPasses (extractHeaders (Some exampleResponse))
      \<and> clickjackingPasses (extractHeaders (Some exampleResponse))
      \<and> referrerPasses (extractHeaders (Some exampleResponse))
      \<and> permissionsPasses (extractHeaders (Some exampleResponse))
      \<and> nosniffPasses (extractHeaders (Some exampleResponse))"
    using example_passes by simp
  from g have gi: "hstsPasses (extractHeaders (Some exampleResponse))
      \<and> cspPasses (extractHeaders (Some exampleResponse))
      \<and> clickjackingPasses (extractHeaders (Some exampleResponse))
      \<and> referrerPasses (extractHeaders (Some exampleResponse))
      \<and> permissionsPasses (extractHeaders (Some exampleResponse))
      \<and> nosniffPasses (extractHeaders (Some exampleResponse)) \<longrightarrow>
     score (checkHeaders (Responded exampleResponse) ?u noContext) = 25
     \<and> map_of (details (checkHeaders (Responded exampleResponse) ?u noContext))
        ''missing'' = Some (DList [])"
    by (elim conjE)
  note g' = mp [OF gi allg]
  from b have bi: "(\<forall>k \<in> set rubricKeys. map_of (extractHeaders (Some bareResponse)) k = None) \<longrightarrow>
     score (checkHeaders (Responded bareResponse) ?u noContext) = 0
     \<and> map_of (details (checkHeaders (Responded bareResponse) ?u noContext))
        ''missing'' = Some (DList rubricLabels)"
    by (elim conjE)
  note b' = mp [OF bi bare']
  from j have j': "score (checkHeaders (Responded junkResponse) ?u noContext) = 4
     \<and> map_of (details (checkHeaders (Responded junkResponse) ?u noContext)) ''missing'' =
        Some (DList [''HSTS (Strict-Transport-Security)'', ''Content-Security-Policy'',
                     ''Clickjacking protection'', ''Permissions-Policy'',
                     ''X-Content-Type-Options''])"
    by (simp add: junk_passes)
  from g' b' j' bare allg junk_passes obtain_refetched show ?thesis
    by (intro conjI) simp_all
qed

section \<open>Properties of the WHOIS evaluator\<close>

lemma whoisScore_fst:
  "fst (whoisScore nowMs d creationDate expiryDate registrar nameServers) =
     25 - agePenalty nowMs creationDate - expiryPenalty nowMs expiryDate - registrarPenalty registrar"
  by (simp add: whoisScore_def agePenalty_def expiryPenalty_def registrarPenalty_def Let_def
      whois_MAX_SCORE_def split: option.splits prod.splits)

lemma checkWhois_record:
  assumes "parseURL env u = Some pu" and "pslDomain env (hostname pu) = Some d" and "d \<noteq> []"
    and "whoisLookup env d = LookupRecord (Some record)" and "record \<noteq> []"
  shows "score (checkWhois env u) =
     max 0 (min 25 (fst (whoisScore (now env) d
        (parseDate (newDate env) (pickValue (normalizeRecord record) creationAliases))
        (parseDate (newDate env) (pickValue (normalizeRecord record) expiryAliases))
        (let r = pickValue (normalizeRecord record) registrarAliases in if wtruthy r then r else None)
        (toArray (pickValue (normalizeRecord record) nameServerAliases)))))"
  using assms
  by (simp add: checkWhois_def Let_def finalizeResult_int split: prod.splits)

lemma registrarPenalty_or_undefined:
  "registrarPenalty (let r = v in if wtruthy r then r else None) = registrarPenalty v"
  by (simp add: registrarPenalty_def Let_def)

text \<open>
  C7. After a successful lookup with a non-empty record the WHOIS score is 25 minus
  three penalties, clamped to the interval from 0 to 25: for the age of the domain 12
  below 30 days, else 6 below 180 days, and 6 when the creation date is unknown; for the
  expiry 10 when at most 0 days are left, else 6 when at most 30, and 5 when the expiry
  date is unknown; 3 when the registrar is missing. A date string that cannot be parsed
  is treated as an absent field.
\<close>

theorem checkWhois_score:
  assumes "parseURL env u = Some pu" and "pslDomain env (hostname pu) = Some d" and "d \<noteq> []"
    and "whoisLookup env d = LookupRecord (Some record)" and "record \<noteq> []"
  shows "score (checkWhois env u) =
       max 0 (min 25
         (25
          - agePenalty (now env)
              (parseDate (newDate env) (pickValue (normalizeRecord record) creationAliases))
          - expiryPenalty (now env)
              (parseDate (newDate env) (pickValue (normalizeRecord record) expiryAliases))
          - registrarPenalty (pickValue (normalizeRecord record) registrarAliases)))
     \<and> parseDate (newDate env) None = None
     \<and> (newDate env (trim s) = InvalidDate \<longrightarrow>
          parseDate (newDate env) (Some (WStr s)) = parseDate (newDate env) None)
     \<and> agePenalty (now env) None = 6
     \<and> expiryPenalty (now env) None = 5
     \<and> (agePenalty (now env) (Some t) =
          (if (now env - t) div 86400000 < 30 then 12
           else if (now env - t) div 86400000 < 180 then 6 else 0))
     \<and> (expiryPenalty (now env) (Some t) =
          (if (t - now env) div 86400000 \<le> 0 then 10
           else if (t - now env) div 86400000 \<le> 30 then 6 else 0))
     \<and> registrarPenalty v = (if wtruthy v then 0 else 3)"
proof -
  have a: "score (checkWhois env u) =
       max 0 (min 25
         (25
          - agePenalty (now env)
              (parseDate (newDate env) (pickValue (normalizeRecord record) creationAliases))
          - expiryPenalty (now env)
              (parseDate (newDate env) (pickValue (normalizeRecord record) expiryAliases))
          - registrarPenalty (pickValue (normalizeRecord record) registrarAliases)))"
    unfolding checkWhois_record [OF assms] whoisScore_fst registrarPenalty_or_undefined ..
  have b: "parseDate (newDate env) None = None"
    by (simp add: parseDate_def)
  have c: "newDate env (trim s) = InvalidDate \<longrightarrow>
          parseDate (newDate env) (Some (WStr s)) = parseDate (newDate env) None"
    by (simp add: parseDate_def Let_def)
  have d: "agePenalty (now env) None = 6 \<and> expiryPenalty (now env) None = 5
     \<and> (agePenalty (now env) (Some t) =
          (if (now env - t) div 86400000 < 30 then 12
           else if (now env - t) div 86400000 < 180 then 6 else 0))
     \<and> (expiryPenalty (now env) (Some t) =
          (if (t - now env) div 86400000 \<le> 0 then 10
           else if (t - now env) div 86400000 \<le> 30 then 6 else 0))
     \<and> registrarPenalty v = (if wtruthy v then 0 else 3)"
    by (simp add: agePenalty_def expiryPenalty_def registrarPenalty_def DAY_IN_MS_def Let_def)
  from a b c d show ?thesis by (intro conjI) simp_all
qed

lemma young_normalized:
  "normalizeRecord youngRecord =
     [(''domainname'', WStr ''EXAMPLE.COM''), (''creationdate'', WStr '' 2025-12-22 ''),
      (''registryexpirydate'', WStr ''TBD'')]"
  by (simp add: normalizeRecord_def normalizeKey_def youngRecord_def toLowerCase_def isSpace_def)

lemma young_fields:
  "pickValue (normalizeRecord youngRecord) creationAliases = Some (WStr '' 2025-12-22 '')"
  "pickValue (normalizeRecord youngRecord) expiryAliases = Some (WStr ''TBD'')"
  "pickValue (normalizeRecord youngRecord) registrarAliases = None"
  unfolding young_normalized
  by (simp_all add: creationAliases_def expiryAliases_def registrarAliases_def normalizeKey_def
      toLowerCase_def isSpace_def)

lemma young_dates:
  "parseDate (newDate youngEnv) (Some (WStr '' 2025-12-22 '')) = Some 1766361600000"
  "parseDate (newDate youngEnv) (Some (WStr ''TBD'')) = None"
  "newDate youngEnv (trim ''TBD'') = InvalidDate"
  by (simp_all add: parseDate_def Let_def youngEnv_def trim_def isSpace_def)

theorem checkWhois_score_witness:
  "parseURL youngEnv ''https://www.example.com/'' = Some exampleUrl
   \<and> pslDomain youngEnv (hostname exampleUrl) = Some ''example.com''
   \<and> ''example.com'' \<noteq> []
   \<and> whoisLookup youngEnv ''example.com'' = LookupRecord (Some youngRecord)
   \<and> youngRecord \<noteq> []
   \<and> newDate youngEnv (trim ''TBD'') = InvalidDate
   \<and> parseDate (newDate youngEnv) (Some (WStr ''TBD'')) = None
   \<and> score (checkWhois youngEnv ''https://www.example.com/'') = 5"
proof -
  have h: "parseURL youngEnv ''https://www.example.com/'' = Some exampleUrl"
    "pslDomain youngEnv (hostname exampleUrl) = Some ''example.com''"
    "''example.com'' \<noteq> []"
    "whoisLookup youngEnv ''example.com'' = LookupRecord (Some youngRecord)"
    "youngRecord \<noteq> []"
    by (simp_all add: youngEnv_def exampleEnv_def youngRecord_def)
  note t = checkWhois_score [OF h, of "''TBD''" 1766361600000 None]
  have n: "now youngEnv = 1767225600000" by (simp add: youngEnv_def exampleEnv_def)
  from t have sc: "score (checkWhois youngEnv ''https://www.example.com/'') =
       max 0 (min 25
         (25
          - agePenalty (now youngEnv)
              (parseDate (newDate youngEnv) (pickValue (normalizeRecord youngRecord) creationAliases))
          - expiryPenalty (now youngEnv)
              (parseDate (newDate youngEnv) (pickValue (normalizeRecord youngRecord) expiryAliases))
          - registrarPenalty (pickValue (normalizeRecord youngRecord) registrarAliases)))"
    by (elim conjE)
  from t have un: "newDate youngEnv (trim ''TBD'') = InvalidDate \<longrightarrow>
          parseDate (newDate youngEnv) (Some (WStr ''TBD'')) = parseDate (newDate youngEnv) None"
    by (elim conjE)
  from t have nn: "parseDate (newDate youngEnv) None = None"
    by (elim conjE)
  from mp [OF un young_dates(3)] nn
  have p: "parseDate (newDate youngEnv) (Some (WStr ''TBD'')) = None" by simp
  have s5: "score (checkWhois youngEnv ''https://www.example.com/'') = 5"
    unfolding sc young_fields young_dates n
    by (simp add: agePenalty_def expiryPenalty_def registrarPenalty_def DAY_IN_MS_def)
  from h young_dates(3) p s5 show ?thesis by (intro conjI) simp_all
qed

section \<open>Properties of the cookie evaluator\<close>

lemma cookieWithDetails_ok:
  assumes "expires c \<noteq> Some InvalidDate"
  shows "\<exists>d. cookieWithDetails c p = Inr (d, p + 5 * int (length (analyzeCookieIssues c)))
           \<and> cd_issues d = analyzeCookieIssues c \<and> cd_name d = name c"
proof (cases "expires c")
  case None
  then show ?thesis by (simp add: cookieWithDetails_def Let_def)
next
  case (Some e)
  with assms obtain t where "e = Date t" by (cases e) auto
  with Some show ?thesis by (simp add: cookieWithDetails_def Let_def)
qed

lemma mapCookies_ok:
  assumes "list_all (\<lambda>c. expires c \<noteq> Some InvalidDate) cs"
  shows "\<exists>ds. mapCookies cs p =
             Inr (ds, p + 5 * sum_list (map (\<lambda>c. int (length (analyzeCookieIssues c))) cs))
           \<and> map cd_issues ds = map analyzeCookieIssues cs \<and> map cd_name ds = map name cs"
  using assms
proof (induction cs arbitrary: p)
  case Nil
  then show ?case by simp
next
  case (Cons c cs)
  then have c: "expires c \<noteq> Some InvalidDate"
    and cs: "list_all (\<lambda>c. expires c \<noteq> Some InvalidDate) cs" by simp_all
  from cookieWithDetails_ok [OF c, of p] obtain d where
    d: "cookieWithDetails c p = Inr (d, p + 5 * int (length (analyzeCookieIssues c)))"
       "cd_issues d = analyzeCookieIssues c" "cd_name d = name c" by blast
  from Cons.IH [OF cs, of "p + 5 * int (length (analyzeCookieIssues c))"] obtain ds where
    ds: "mapCookies cs (p + 5 * int (length (analyzeCookieIssues c))) =
           Inr (ds, p + 5 * int (length (analyzeCookieIssues c))
                    + 5 * sum_list (map (\<lambda>c. int (length (analyzeCookieIssues c))) cs))"
        "map cd_issues ds = map analyzeCookieIssues cs" "map cd_name ds = map name cs" by blast
  have "mapCookies (c # cs) p =
      Inr (d # ds, p + 5 * sum_list (map (\<lambda>c. int (length (analyzeCookieIssues c))) (c # cs)))"
    using d(1) ds(1) by (simp add: algebra_simps)
  with d ds show ?case by simp
qed

lemma mapCookies_invalid:
  assumes "\<not> list_all (\<lambda>c. expires c \<noteq> Some InvalidDate) cs"
  shows "mapCookies cs p = Inl RangeError_invalid_time"
  using assms
proof (induction cs arbitrary: p)
  case Nil
  then show ?case by simp
next
  case (Cons c cs)
  show ?case
  proof (cases "expires c = Some InvalidDate")
    case True
    then show ?thesis by (simp add: cookieWithDetails_def Let_def)
  next
    case False
    with Cons.prems have "\<not> list_all (\<lambda>c. expires c \<noteq> Some InvalidDate) cs" by simp
    from Cons.IH [OF this] cookieWithDetails_ok [OF False, of p]
    show ?thesis by auto
  qed
qed

text \<open>
  The score rule of the cookie evaluator, where it returns: without Set-Cookie entries the
  score is 25, with no warning and \<open>totalCookies = 0\<close>; otherwise, when every
  \<open>expires\<close> date is valid, the score is \<open>max 0 (25 - 5 * N)\<close> for the number \<open>N\<close> of
  issues of all cookies, with one warning per cookie that has an issue.
\<close>

lemma checkCookies_score:
  assumes "obtainResponse refetch ctx = (Some resp, err)"
    and "h = (case headers resp of None \<Rightarrow> None | Some entries \<Rightarrow> map_of entries ''set-cookie'')"
  shows "noSetCookie h \<Longrightarrow>
           checkCookies pc refetch u ctx =
             Inr (cookies_finalizeResult 25 []
                    [(''totalCookies'', DNum 0),
                     (''note'', DStr ''No cookies were set during the initial request.'')])"
    and "\<not> noSetCookie h \<Longrightarrow> list_all (\<lambda>c. expires c \<noteq> Some InvalidDate) (pc (the h)) \<Longrightarrow>
           \<exists>c. checkCookies pc refetch u ctx = Inr c
             \<and> score c = max 0 (25 - 5 * sum_list (map (\<lambda>c. int (length (analyzeCookieIssues c))) (pc (the h))))
             \<and> length (warnings c) = length (filter (\<lambda>c. analyzeCookieIssues c \<noteq> []) (pc (the h)))"
    and "\<not> noSetCookie h \<Longrightarrow> \<not> list_all (\<lambda>c. expires c \<noteq> Some InvalidDate) (pc (the h)) \<Longrightarrow>
           checkCookies pc refetch u ctx = Inl RangeError_invalid_time"
proof -
  show "checkCookies pc refetch u ctx =
             Inr (cookies_finalizeResult 25 []
                    [(''totalCookies'', DNum 0),
                     (''note'', DStr ''No cookies were set during the initial request.'')])"
    if "noSetCookie h"
    using assms that by (simp add: checkCookies_def Let_def cookies_MAX_SCORE_def)
next
  assume n: "\<not> noSetCookie h" and v: "list_all (\<lambda>c. expires c \<noteq> Some InvalidDate) (pc (the h))"
  let ?N = "sum_list (map (\<lambda>c. int (length (analyzeCookieIssues c))) (pc (the h)))"
  from mapCookies_ok [OF v, of 0] obtain ds where
    ds: "mapCookies (pc (the h)) 0 = Inr (ds, 5 * ?N)"
        "map cd_issues ds = map analyzeCookieIssues (pc (the h))" by auto
  have N: "0 \<le> ?N" by (rule sum_list_nonneg) auto
  have len: "length (filter (\<lambda>d. cd_issues d \<noteq> []) ds) =
      length (filter (\<lambda>c. analyzeCookieIssues c \<noteq> []) (pc (the h)))"
  proof -
    have "length (filter (\<lambda>d. cd_issues d \<noteq> []) ds) = length (filter (\<lambda>i. i \<noteq> []) (map cd_issues ds))"
      by (simp add: filter_map comp_def)
    also have "\<dots> = length (filter (\<lambda>i. i \<noteq> []) (map analyzeCookieIssues (pc (the h))))"
      unfolding ds(2) ..
    also have "\<dots> = length (filter (\<lambda>c. analyzeCookieIssues c \<noteq> []) (pc (the h)))"
      by (simp add: filter_map comp_def)
    finally show ?thesis .
  qed
  define X where "X = max 0 (25 - min 25 (5 * ?N))"
  define ws where "ws = map (\<lambda>d. nameText (cd_name d) @ '': '' @ join '' '' (cd_issues d))
                  (filter (\<lambda>d. length (cd_issues d) > 0) ds)"
  define dd where "dd = [(''totalCookies'', DNum (int (length (pc (the h))))),
              (''insecureCookies'', DNum (int (length (filter (\<lambda>d. length (cd_issues d) > 0) ds)))),
              (''cookies'', DCookies ds)]"
  have eq: "checkCookies pc refetch u ctx = Inr (cookies_finalizeResult (of_int X) ws dd)"
    using assms n ds(1)
    by (simp add: checkCookies_def Let_def cookies_MAX_SCORE_def X_def ws_def dd_def)
  have "score (cookies_finalizeResult (of_int X) ws dd) = max 0 (min 25 X)"
    by (rule finalizeResult_int)
  then have sc: "score (cookies_finalizeResult (of_int X) ws dd) = max 0 (25 - 5 * ?N)"
    using N unfolding X_def by simp
  have "length (warnings (cookies_finalizeResult (of_int X) ws dd)) =
      length (filter (\<lambda>d. cd_issues d \<noteq> []) ds)"
    unfolding cookies_finalizeResult_sel ws_def by simp
  then have wl: "length (warnings (cookies_finalizeResult (of_int X) ws dd)) =
      length (filter (\<lambda>c. analyzeCookieIssues c \<noteq> []) (pc (the h)))"
    unfolding len .
  from eq sc wl
  show "\<exists>c. checkCookies pc refetch u ctx = Inr c
             \<and> score c = max 0 (25 - 5 * ?N)
             \<and> length (warnings c) = length (filter (\<lambda>c. analyzeCookieIssues c \<noteq> []) (pc (the h)))"
    by blast
next
  assume n: "\<not> noSetCookie h" and v: "\<not> list_all (\<lambda>c. expires c \<noteq> Some InvalidDate) (pc (the h))"
  from mapCookies_invalid [OF v, of 0] assms n
  show "checkCookies pc refetch u ctx = Inl RangeError_invalid_time"
    by (simp add: checkCookies_def Let_def)
qed

text \<open>
  C4, at a response the rule does not cover. The cookie \<open>sid\<close> carries Secure, HttpOnly,
  \<open>SameSite=Strict\<close> and an \<open>Expires\<close> attribute that is not a date. It has no issue,
  so the score rule \<open>max 0 (25 - 5 * N)\<close> gives 25; the evaluator instead ends in the
  \<open>RangeError\<close> of \<open>toISOString\<close> and returns no result. The same response with a
  cookie without \<open>Expires\<close> does not fault.
\<close>

theorem checkCookies_invalid_expires_rejects:
  "analyzeCookieIssues badExpiresCookie = []
   \<and> max 0 (25 - 5 * int (length (analyzeCookieIssues badExpiresCookie))) = 25
   \<and> checkCookies (\<lambda>h. [badExpiresCookie]) (Responded exampleResponse) ''https://www.example.com/''
        \<lparr>ctx_response = Some exampleResponse, ctx_fetchError = None\<rparr> = Inl RangeError_invalid_time
   \<and> checkCookies (\<lambda>h. [exampleCookie]) (Responded exampleResponse) ''https://www.example.com/''
        \<lparr>ctx_response = Some exampleResponse, ctx_fetchError = None\<rparr> \<noteq> Inl RangeError_invalid_time"
proof -
  have "isl (checkCookies (\<lambda>h. [exampleCookie]) (Responded exampleResponse) ''https://www.example.com/''
        \<lparr>ctx_response = Some exampleResponse, ctx_fetchError = None\<rparr>) = False"
    by (simp add: checkCookies_def obtainResponse_def exampleResponse_def exampleHeaders_def
      cookieWithDetails_def Let_def exampleCookie_def)
  then have "checkCookies (\<lambda>h. [exampleCookie]) (Responded exampleResponse) ''https://www.example.com/''
        \<lparr>ctx_response = Some exampleResponse, ctx_fetchError = None\<rparr> \<noteq> Inl RangeError_invalid_time"
    by auto
  then show ?thesis
    by (simp add: analyze_badExpires checkCookies_badExpires)
qed

end
